theory Spec2Isabelle
  imports Complex_Main "HOL-Library.List_Lexorder" "HOL-Library.Product_Lexorder"
begin

section \<open>Values of the host language\<close>

text \<open>
  A document path of the store holds a value, \<^verbatim>\<open>null\<close>, or nothing at all
  (\<^verbatim>\<open>undefined\<close>). The two OTP verification handlers clear their paths
  differently (one assigns \<^verbatim>\<open>undefined\<close>, the other \<^verbatim>\<open>null\<close>), so the three
  cases are kept apart.
\<close>

datatype 'a field = Undefined | Null | Val 'a

fun is_set :: "'a field \<Rightarrow> bool" where
  "is_set (Val _) = True"
| "is_set _ = False"

text \<open>
  \<^verbatim>\<open>stored !== supplied\<close> for a supplied string: strict inequality, so
  \<^verbatim>\<open>undefined\<close> and \<^verbatim>\<open>null\<close> differ from every string.
\<close>

fun strict_neq :: "string field \<Rightarrow> string \<Rightarrow> bool" where
  "strict_neq (Val s) t = (s \<noteq> t)"
| "strict_neq _ t = True"

text \<open>
  \<^verbatim>\<open>stored < now\<close> for a stored date and the clock in milliseconds: the relational
  operator converts both sides to numbers, \<^verbatim>\<open>undefined\<close> becomes NaN (every
  comparison with it is false) and \<^verbatim>\<open>null\<close> becomes 0.
\<close>

fun date_lt :: "nat field \<Rightarrow> nat \<Rightarrow> bool" where
  "date_lt (Val t) n = (t < n)"
| "date_lt Null n = (0 < n)"
| "date_lt Undefined n = False"

text \<open>A string is truthy when it is not empty; a missing value is falsy.\<close>

fun truthy :: "string option \<Rightarrow> bool" where
  "truthy None = False"
| "truthy (Some s) = (s \<noteq> [])"

text \<open>\<^verbatim>\<open>a || b\<close> on two optional strings.\<close>

definition or_else :: "string option \<Rightarrow> string option \<Rightarrow> string option" where
  "or_else a b = (if truthy a then a else b)"

text \<open>
  \<^verbatim>\<open>String.prototype.trim\<close> on the ASCII white space characters (space, tab, line
  feed, vertical tab, form feed, carriage return). The white space beyond ASCII that the
  host language strips as well (the no-break space, the byte order mark, the Unicode
  spaces) is not modelled: a string is a list of bytes here.
\<close>

definition is_space :: "char \<Rightarrow> bool" where
  "is_space c = (c \<in> set [CHR 0x20, CHR 0x09, CHR 0x0A, CHR 0x0B, CHR 0x0C, CHR 0x0D])"

definition trim :: "string \<Rightarrow> string" where
  "trim s = rev (dropWhile is_space (rev (dropWhile is_space s)))"

text \<open>Digits, for \<^verbatim>\<open>parseInt\<close> and for the phone pattern of the schema.\<close>

definition digit_of :: "nat \<Rightarrow> char \<Rightarrow> nat option" where
  "digit_of radix c =
     (let n = (of_char c :: nat);
          v = (if 48 \<le> n \<and> n \<le> 57 then Some (n - 48)
               else if 97 \<le> n \<and> n \<le> 122 then Some (n - 87)
               else if 65 \<le> n \<and> n \<le> 90 then Some (n - 55)
               else None)
      in (case v of None \<Rightarrow> None | Some d \<Rightarrow> if d < radix then Some d else None))"

definition is_digit :: "char \<Rightarrow> bool" where
  "is_digit c = (digit_of 10 c \<noteq> None)"

fun read_digits :: "nat \<Rightarrow> string \<Rightarrow> nat option \<Rightarrow> nat option" where
  "read_digits radix [] acc = acc"
| "read_digits radix (c # cs) acc =
     (case digit_of radix c of
        None \<Rightarrow> acc
      | Some d \<Rightarrow> read_digits radix cs (Some ((case acc of None \<Rightarrow> 0 | Some a \<Rightarrow> a) * radix + d)))"

text \<open>
  \<^verbatim>\<open>parseInt(s)\<close> with no radix: leading white space is skipped, a sign is read, a
  prefix \<^verbatim>\<open>0x\<close> selects radix 16, the longest run of digits is the value and whatever
  follows is ignored. \<open>None\<close> is NaN. The value is the exact integer: the rounding of
  a double beyond 53 bits and the negative zero of the host language are not modelled.
\<close>

definition parse_unsigned :: "string \<Rightarrow> nat option" where
  "parse_unsigned s =
     (case s of
        c0 # c1 # rest \<Rightarrow>
          if c0 = CHR ''0'' \<and> (c1 = CHR ''x'' \<or> c1 = CHR ''X'')
          then read_digits 16 rest None
          else read_digits 10 s None
      | _ \<Rightarrow> read_digits 10 s None)"

definition parseInt :: "string \<Rightarrow> int option" where
  "parseInt s =
     (case dropWhile is_space s of
        [] \<Rightarrow> None
      | c # cs \<Rightarrow>
          if c = CHR ''-'' then map_option (\<lambda>n. - int n) (parse_unsigned cs)
          else if c = CHR ''+'' then map_option int (parse_unsigned cs)
          else map_option int (parse_unsigned (c # cs)))"

text \<open>
  A JavaScript number as far as the listing needs it: \<^verbatim>\<open>Math.ceil(a / b)\<close> on
  integers is an integer, \<^verbatim>\<open>Infinity\<close> when only \<open>b\<close> is zero, and NaN when both are.
  With no negative zero there is no negative infinity either.
\<close>

datatype jsnum = Num int | PosInfinity | NaN

definition ceil_div :: "nat \<Rightarrow> int \<Rightarrow> jsnum" where
  "ceil_div a b =
     (if b = 0 then (if a = 0 then NaN else PosInfinity)
      else Num (- ((- int a) div b)))"

fun num_lt :: "int \<Rightarrow> jsnum \<Rightarrow> bool" where
  "num_lt p (Num t) = (p < t)"
| "num_lt p PosInfinity = True"
| "num_lt p NaN = False"

section \<open>Responses\<close>

datatype json =
    JNull
  | JBool bool
  | JNum jsnum
  | JStr string
  | JDate nat
  | JOid string
  | JArr "json list"
  | JObj "(string \<times> json) list"

text \<open>Whether a key occurs anywhere in a value, and the value an object holds at a key.\<close>

fun mentions :: "string \<Rightarrow> json \<Rightarrow> bool" where
  "mentions k (JObj kvs) = list_ex (\<lambda>kv. fst kv = k \<or> mentions k (snd kv)) kvs"
| "mentions k (JArr vs) = list_ex (mentions k) vs"
| "mentions k _ = False"

fun lookup :: "string \<Rightarrow> json \<Rightarrow> json option" where
  "lookup k (JObj kvs) = map_of kvs k"
| "lookup k _ = None"

definition select_excl :: "string list \<Rightarrow> (string \<times> json) list \<Rightarrow> (string \<times> json) list" where
  \<comment> \<open>\<^verbatim>\<open>.select("-a -b")\<close>: an exclusion projection drops the listed paths.\<close>
  "select_excl ks kvs = filter (\<lambda>kv. fst kv \<notin> set ks) kvs"

text \<open>
  Modelled from the spec: the classes \<^verbatim>\<open>ApiResponse\<close> and \<^verbatim>\<open>ApiError\<close> of
  \<^verbatim>\<open>utils/\<close> are defined outside the controller and the model. The spec gives the envelope
  \<^verbatim>\<open>{statusCode, data, message, success}\<close> and structured errors (code and message);
  the \<^verbatim>\<open>success\<close> flag is computed inside the class and is left out. A handler that
  passes no message leaves \<open>message\<close> empty.
\<close>

record api_response =
  statusCode :: nat
  data :: json
  message :: "string option"

record response =
  status :: nat
  set_cookies :: "(string \<times> string) list"
  cleared_cookies :: "string list"
  envelope :: api_response

text \<open>
  \<open>ApiError\<close> is what the handlers throw themselves; \<open>Thrown\<close> is an exception of a
  collaborator (the store, the token library, the hasher, the notification sink), which
  the handlers do not catch.
\<close>

datatype error = ApiError nat string | Thrown string

record request =
  body :: "string \<rightharpoonup> string"
  cookies :: "string \<rightharpoonup> string"
  query :: "string \<rightharpoonup> string"
  params :: "string \<rightharpoonup> string"
  file_path :: "string option"
  auth_client :: "string option"

section \<open>The client record\<close>

record client =
  oid :: string
  name :: string
  email :: string
  age :: int
  gender :: string
  password :: string
  phone :: string
  avatar :: string
  verified :: bool
  refreshToken :: "string field"
  verificationToken :: "string field"
  tokenVersion :: int
  otp :: "string field"
  otpExpires :: "nat field"
  createdAt :: nat
  updatedAt :: nat
  versionKey :: int

fun opt_entry :: "string \<Rightarrow> ('a \<Rightarrow> json) \<Rightarrow> 'a field \<Rightarrow> (string \<times> json) list" where
  "opt_entry k f Undefined = []"
| "opt_entry k f Null = [(k, JNull)]"
| "opt_entry k f (Val v) = [(k, f v)]"

definition doc_of :: "client \<Rightarrow> (string \<times> json) list" where
  \<comment> \<open>The document as the store holds it and as \<^verbatim>\<open>res.json\<close> prints it.\<close>
  "doc_of c =
     [(''_id'', JOid (oid c)), (''name'', JStr (name c)), (''email'', JStr (email c)),
      (''age'', JNum (Num (age c))), (''gender'', JStr (gender c)),
      (''password'', JStr (password c)), (''phone'', JStr (phone c)),
      (''avatar'', JStr (avatar c)), (''verified'', JBool (verified c))]
     @ opt_entry ''refreshToken'' JStr (refreshToken c)
     @ opt_entry ''verificationToken'' JStr (verificationToken c)
     @ [(''tokenVersion'', JNum (Num (tokenVersion c)))]
     @ opt_entry ''otp'' JStr (otp c)
     @ opt_entry ''otpExpires'' JDate (otpExpires c)
     @ [(''createdAt'', JDate (createdAt c)), (''updatedAt'', JDate (updatedAt c)),
        (''__v'', JNum (Num (versionKey c)))]"

text \<open>The validators of the schema: required paths, the gender enumeration, the phone pattern.\<close>

definition phone_ok :: "string \<Rightarrow> bool" where
  \<comment> \<open>\<^verbatim>\<open>/^\+?[1-9]\d{1,14}$/\<close>\<close>
  "phone_ok s =
     (let t = (case s of [] \<Rightarrow> [] | c # cs \<Rightarrow> if c = CHR ''+'' then cs else s)
      in (case t of
            [] \<Rightarrow> False
          | d # ds \<Rightarrow>
              (case digit_of 10 d of None \<Rightarrow> False | Some v \<Rightarrow> 1 \<le> v)
              \<and> 1 \<le> length ds \<and> length ds \<le> 14 \<and> list_all is_digit ds))"

definition schema_valid :: "client \<Rightarrow> bool" where
  "schema_valid c =
     (name c \<noteq> [] \<and> email c \<noteq> [] \<and> gender c \<in> set [''Male'', ''Female'', ''Other'']
      \<and> password c \<noteq> [] \<and> phone c \<noteq> [] \<and> phone_ok (phone c))"

section \<open>Collaborators, configuration and the ambient values of one request\<close>

datatype payload =
    AccessClaims string string string int
  | IdClaims string
  | EmailClaims string

fun payload_id :: "payload \<Rightarrow> string option" where
  "payload_id (AccessClaims i _ _ _) = Some i"
| "payload_id (IdClaims i) = Some i"
| "payload_id (EmailClaims _) = None"

text \<open>
  The libraries and services the handlers call are parameters. \<open>jwt_sign\<close> takes the
  payload, the secret, the \<^verbatim>\<open>expiresIn\<close> option and the issue time in whole seconds
  (the library stamps \<^verbatim>\<open>iat\<close> with the clock rounded down to seconds); \<open>jwt_verify\<close>
  is \<open>None\<close> when the library throws. \<open>bcrypt_hash\<close> takes the text and the salt it
  drew for the ten rounds. \<open>uploadToCloud\<close> is \<open>None\<close> when the upload fails;
  \<open>sendOtp\<close> and \<open>sendMail\<close> tell whether delivery resolved. \<open>castObjectId\<close> and
  \<open>castNumber\<close> are the store's casts of a request string to an id and to a number.
\<close>

record deps =
  bcrypt_hash :: "string \<Rightarrow> string \<Rightarrow> string"
  bcrypt_compare :: "string \<Rightarrow> string \<Rightarrow> bool"
  jwt_sign :: "payload \<Rightarrow> string \<Rightarrow> string \<Rightarrow> nat \<Rightarrow> string"
  jwt_verify :: "string \<Rightarrow> string \<Rightarrow> nat \<Rightarrow> payload option"
  uploadToCloud :: "string \<Rightarrow> string option"
  sendOtp :: "string \<Rightarrow> string \<Rightarrow> bool"
  sendMail :: "string \<Rightarrow> string \<Rightarrow> string \<Rightarrow> string \<Rightarrow> bool"
  castObjectId :: "string \<Rightarrow> string option"
  castNumber :: "string \<Rightarrow> int option"

record env =
  ACCESS_TOKEN_SECRET :: string
  ACCESS_TOKEN_EXPIRY :: string
  REFRESH_TOKEN_SECRET :: string
  REFRESH_TOKEN_EXPIRY :: string
  EMAIL_SECRET :: string
  EMAIL_USER :: string

text \<open>
  What a request reads from outside: the clock in milliseconds (read once per request),
  the draw of \<^verbatim>\<open>Math.random\<close> scaled to \<open>\<lfloor>r * 900000\<rfloor>\<close>, the salts the hasher
  draws in the controller and in the pre-save hook, and the id the store gives a new
  document.
\<close>

record world =
  now :: nat
  rand :: nat
  salt_controller :: string
  salt_hook :: string
  new_oid :: string

definition digit_char :: "nat \<Rightarrow> char" where
  "digit_char n = ''0123456789'' ! n"

function dec :: "nat \<Rightarrow> string" where
  "dec n = (if n < 10 then [digit_char n] else dec (n div 10) @ [digit_char (n mod 10)])"
  by pat_completeness auto
termination
  by (relation "measure id") auto

declare dec.simps [simp del]

definition generateOTP :: "nat \<Rightarrow> string" where
  "generateOTP r = dec (100000 + r)"

section \<open>The store\<close>

type_synonym db = "client list"

definition findById :: "db \<Rightarrow> string \<Rightarrow> client option" where
  "findById d i = find (\<lambda>c. oid c = i) d"

definition findById_cast :: "deps \<Rightarrow> db \<Rightarrow> string \<Rightarrow> error + client option" where
  \<comment> \<open>\<^verbatim>\<open>findById\<close> on a string of the request: the cast to an id may throw.\<close>
  "findById_cast D d s =
     (case castObjectId D s of
        None \<Rightarrow> Inl (Thrown ''CastError'')
      | Some i \<Rightarrow> Inr (findById d i))"

definition findOne_email :: "db \<Rightarrow> string option \<Rightarrow> client option" where
  \<comment> \<open>\<^verbatim>\<open>findOne({ email })\<close>: the filter value passes the path's \<^verbatim>\<open>trim\<close> setter;
      no document matches a missing value, since the path is required.\<close>
  "findOne_email d e =
     (case e of None \<Rightarrow> None | Some s \<Rightarrow> find (\<lambda>c. email c = trim s) d)"

definition matches_email :: "string option \<Rightarrow> client \<Rightarrow> bool" where
  "matches_email e c = (case e of None \<Rightarrow> False | Some s \<Rightarrow> email c = trim s)"

definition matches_phone :: "string option \<Rightarrow> client \<Rightarrow> bool" where
  "matches_phone p c = (case p of None \<Rightarrow> False | Some s \<Rightarrow> phone c = trim s)"

definition findOne_email_or_phone :: "db \<Rightarrow> string option \<Rightarrow> string option \<Rightarrow> client option" where
  \<comment> \<open>\<^verbatim>\<open>findOne({ $or: [{ email }, { phone }] })\<close>\<close>
  "findOne_email_or_phone d e p = find (\<lambda>c. matches_email e c \<or> matches_phone p c) d"

definition save :: "deps \<Rightarrow> world \<Rightarrow> bool \<Rightarrow> client \<Rightarrow> client \<Rightarrow> db \<Rightarrow> (error + client) \<times> db" where
  \<comment> \<open>\<^verbatim>\<open>doc.save()\<close> of a document loaded as \<open>loaded\<close> and changed to \<open>doc\<close>:
      validation (unless switched off), the pre-save hook, which hashes the password when
      that path was modified, the unique indexes on email and phone, the timestamp.\<close>
  "save D w validate loaded doc d =
     (if validate \<and> \<not> schema_valid doc then (Inl (Thrown ''ValidationError''), d)
      else
        let hashed = (if password doc \<noteq> password loaded
                      then doc\<lparr>password := bcrypt_hash D (password doc) (salt_hook w)\<rparr>
                      else doc)
        in if (email hashed \<noteq> email loaded \<or> phone hashed \<noteq> phone loaded)
              \<and> list_ex (\<lambda>c. oid c \<noteq> oid hashed
                               \<and> (email c = email hashed \<or> phone c = phone hashed)) d
           then (Inl (Thrown ''DuplicateKey''), d)
           else
             let stored = (if hashed \<noteq> loaded then hashed\<lparr>updatedAt := now w\<rparr> else hashed)
             in (Inr stored, map (\<lambda>c. if oid c = oid stored then stored else c) d))"

text \<open>The object literal handed to \<^verbatim>\<open>Client.create\<close>, as the request gave its values.\<close>

record client_input =
  in_name :: string
  in_email :: string
  in_phone :: string
  in_password :: string
  in_age :: string
  in_gender :: string
  in_avatar :: string
  in_verificationToken :: string
  in_otp :: string
  in_otpExpires :: nat

definition create :: "deps \<Rightarrow> world \<Rightarrow> client_input \<Rightarrow> db \<Rightarrow> (error + client) \<times> db" where
  \<comment> \<open>\<^verbatim>\<open>Client.create({...})\<close> with \<^verbatim>\<open>verified: false\<close>: casts and setters, schema
      defaults, validation, the pre-save hook on the new password, the unique indexes.\<close>
  "create D w x d =
     (case castNumber D (in_age x) of
        None \<Rightarrow> (Inl (Thrown ''ValidationError''), d)
      | Some a \<Rightarrow>
          let doc = \<lparr>oid = new_oid w, name = trim (in_name x), email = trim (in_email x),
                     age = a, gender = in_gender x, password = in_password x,
                     phone = trim (in_phone x), avatar = in_avatar x, verified = False,
                     refreshToken = Null, verificationToken = Val (in_verificationToken x),
                     tokenVersion = 0, otp = Val (in_otp x), otpExpires = Val (in_otpExpires x),
                     createdAt = now w, updatedAt = now w, versionKey = 0\<rparr>
          in if \<not> schema_valid doc then (Inl (Thrown ''ValidationError''), d)
             else
               let stored = doc\<lparr>password := bcrypt_hash D (in_password x) (salt_hook w)\<rparr>
               in if list_ex (\<lambda>c. oid c = oid stored \<or> email c = email stored
                                     \<or> phone c = phone stored) d
                  then (Inl (Thrown ''DuplicateKey''), d)
                  else (Inr stored, d @ [stored]))"

section \<open>The model's token methods\<close>

definition isPasswordCorrect :: "deps \<Rightarrow> client \<Rightarrow> string option \<Rightarrow> bool option" where
  \<comment> \<open>\<^verbatim>\<open>bcrypt.compare(password, this.password)\<close>; the hasher rejects an argument
      that is not a string (\<open>None\<close>: it throws).\<close>
  "isPasswordCorrect D c pw =
     (case pw of None \<Rightarrow> None | Some p \<Rightarrow> Some (bcrypt_compare D p (password c)))"

definition generateAccessToken :: "deps \<Rightarrow> env \<Rightarrow> world \<Rightarrow> client \<Rightarrow> string" where
  "generateAccessToken D E w c =
     jwt_sign D (AccessClaims (oid c) (email c) ''Client'' (tokenVersion c))
       (ACCESS_TOKEN_SECRET E) (ACCESS_TOKEN_EXPIRY E) (now w div 1000)"

definition generateRefreshToken :: "deps \<Rightarrow> env \<Rightarrow> world \<Rightarrow> client \<Rightarrow> string" where
  "generateRefreshToken D E w c =
     jwt_sign D (IdClaims (oid c)) (REFRESH_TOKEN_SECRET E) (REFRESH_TOKEN_EXPIRY E)
       (now w div 1000)"

section \<open>The controller\<close>

definition token_response :: "nat \<Rightarrow> string \<Rightarrow> string \<Rightarrow> json \<Rightarrow> string option \<Rightarrow> response" where
  \<comment> \<open>Status, the two cookies (both http-only and secure) and the envelope.\<close>
  "token_response st atok rtok dt msg =
     \<lparr>status = st, set_cookies = [(''accessToken'', atok), (''refreshToken'', rtok)],
      cleared_cookies = [],
      envelope = \<lparr>statusCode = st, data = dt, message = msg\<rparr>\<rparr>"

definition plain_response :: "nat \<Rightarrow> json \<Rightarrow> string option \<Rightarrow> response" where
  "plain_response st dt msg =
     \<lparr>status = st, set_cookies = [], cleared_cookies = [],
      envelope = \<lparr>statusCode = st, data = dt, message = msg\<rparr>\<rparr>"

definition generateAccessRefreshTokens ::
  "deps \<Rightarrow> env \<Rightarrow> world \<Rightarrow> string \<Rightarrow> db \<Rightarrow> (error + string \<times> string) \<times> db" where
  "generateAccessRefreshTokens D E w clientId d =
     (if clientId = [] then (Inl (ApiError 400 ''Client ID is required''), d)
      else case findById d clientId of
        None \<Rightarrow> (Inl (ApiError 400 ''No client found with that ID''), d)
      | Some c \<Rightarrow>
          let accessToken = generateAccessToken D E w c;
              refreshToken' = generateRefreshToken D E w c
          in (case save D w False c (c\<lparr>refreshToken := Val refreshToken'\<rparr>) d of
                (Inl e, d') \<Rightarrow> (Inl e, d')
              | (Inr _, d') \<Rightarrow> (Inr (accessToken, refreshToken'), d')))"

definition blank :: "string option \<Rightarrow> bool" where
  \<comment> \<open>\<^verbatim>\<open>!field?.toString().trim()\<close>\<close>
  "blank f = (case f of None \<Rightarrow> True | Some s \<Rightarrow> trim s = [])"

definition otp_mail :: "string \<Rightarrow> string" where
  "otp_mail code =
     ''<p>Your OTP is: <strong>'' @ code @ ''</strong></p><p>This OTP is valid for 5 minutes.</p>''"

definition registerClient :: "deps \<Rightarrow> env \<Rightarrow> world \<Rightarrow> request \<Rightarrow> db \<Rightarrow> (error + response) \<times> db" where
  "registerClient D E w req d =
     (case (body req ''name'', body req ''email'', body req ''phone'', body req ''password'',
            body req ''age'', body req ''gender'') of
        (Some nm, Some em, Some ph, Some pw, Some ag, Some gd) \<Rightarrow>
          if list_ex blank [Some nm, Some em, Some ph, Some pw, Some ag, Some gd]
          then (Inl (ApiError 400 ''All fields are required''), d)
          else if findOne_email_or_phone d (Some em) (Some ph) \<noteq> None
          then (Inl (ApiError 400 ''Email or phone already exists''), d)
          else
            (case (if truthy (file_path req)
                   then uploadToCloud D (case file_path req of Some p \<Rightarrow> p | None \<Rightarrow> [])
                   else Some []) of
               None \<Rightarrow> (Inl (Thrown ''UploadError''), d)
             | Some av \<Rightarrow>
                 let code = generateOTP (rand w);
                     expires = now w + 5 * 60 * 1000;
                     vt = jwt_sign D (EmailClaims em) (EMAIL_SECRET E) ''1d'' (now w div 1000)
                 in if \<not> sendOtp D ph code then (Inl (Thrown ''sendOtp''), d)
                    else if \<not> sendMail D (EMAIL_USER E) em ''Your OTP for Email Verification''
                                 (otp_mail code)
                    then (Inl (Thrown ''sendMail''), d)
                    else
                      (case create D w
                              \<lparr>in_name = nm, in_email = em, in_phone = ph, in_password = pw,
                               in_age = ag, in_gender = gd, in_avatar = av,
                               in_verificationToken = vt, in_otp = code,
                               in_otpExpires = expires\<rparr> d of
                         (Inl e, d1) \<Rightarrow> (Inl (ApiError 500 ''Could not create client''), d1)
                       | (Inr c, d1) \<Rightarrow>
                           if oid c = []
                           then (Inl (ApiError 500 ''Client created but missing ID''), d1)
                           else
                             (case generateAccessRefreshTokens D E w (oid c) d1 of
                                (Inl e, d2) \<Rightarrow> (Inl e, d2)
                              | (Inr (atok, rtok), d2) \<Rightarrow>
                                  (Inr (token_response 201 atok rtok (JObj (doc_of c))
                                          (Some ''Client registered successfully!'')), d2))))
      | _ \<Rightarrow> (Inl (ApiError 400 ''All fields are required''), d))"

definition loginClient :: "deps \<Rightarrow> env \<Rightarrow> world \<Rightarrow> request \<Rightarrow> db \<Rightarrow> (error + response) \<times> db" where
  "loginClient D E w req d =
     (case findOne_email d (body req ''email'') of
        None \<Rightarrow> (Inl (ApiError 404 ''Requested user doesn't exist''), d)
      | Some c \<Rightarrow>
          (case isPasswordCorrect D c (body req ''password'') of
             None \<Rightarrow> (Inl (Thrown ''Illegal arguments''), d)
           | Some valid \<Rightarrow>
               if \<not> valid then (Inl (ApiError 401 ''Invalid user credentials''), d)
               else if \<not> verified c
               then (Inl (ApiError 401 ''Please verify your email first''), d)
               else
                 (case generateAccessRefreshTokens D E w (oid c) d of
                    (Inl e, d1) \<Rightarrow> (Inl e, d1)
                  | (Inr (atok, rtok), d1) \<Rightarrow>
                      let loggedUserFromDB =
                            (case findById d1 (oid c) of
                               None \<Rightarrow> JNull
                             | Some c1 \<Rightarrow>
                                 JObj (select_excl [''password'', ''refreshToken''] (doc_of c1)))
                      in (Inr (token_response 200 atok rtok
                                 (JObj [(''client'', loggedUserFromDB),
                                        (''accessToken'', JStr atok), (''refreshToken'', JStr rtok)])
                                 (Some ''Client logged in successfully!'')), d1))))"

definition verifyEmail :: "deps \<Rightarrow> world \<Rightarrow> request \<Rightarrow> db \<Rightarrow> (error + response) \<times> db" where
  "verifyEmail D w req d =
     (case (body req ''email'', body req ''otp'') of
        (Some em, Some code) \<Rightarrow>
          if em = [] \<or> code = [] then (Inl (ApiError 400 ''Email and OTP are required''), d)
          else
            (case findOne_email d (Some em) of
               None \<Rightarrow> (Inl (ApiError 400 ''Client not found''), d)
             | Some c \<Rightarrow>
                 if strict_neq (otp c) code \<or> date_lt (otpExpires c) (now w)
                 then (Inl (ApiError 400 ''Invalid or expired OTP''), d)
                 else
                   (case save D w True c
                           (c\<lparr>verified := True, otp := Undefined, otpExpires := Undefined\<rparr>) d of
                      (Inl e, d1) \<Rightarrow> (Inl e, d1)
                    | (Inr _, d1) \<Rightarrow>
                        (Inr (plain_response 200
                                (JObj [(''message'', JStr ''Email verified successfully'')])
                                None), d1)))
      | _ \<Rightarrow> (Inl (ApiError 400 ''Email and OTP are required''), d))"

definition findByIdAndUpdate_refreshToken_null :: "world \<Rightarrow> string \<Rightarrow> db \<Rightarrow> db" where
  \<comment> \<open>\<^verbatim>\<open>findByIdAndUpdate(id, { refreshToken: null })\<close>, with the schema's timestamps.\<close>
  "findByIdAndUpdate_refreshToken_null w i d =
     (case findById d i of
        None \<Rightarrow> d
      | Some c \<Rightarrow>
          map (\<lambda>x. if oid x = i then c\<lparr>refreshToken := Null, updatedAt := now w\<rparr> else x) d)"

definition logoutClient :: "world \<Rightarrow> request \<Rightarrow> db \<Rightarrow> (error + response) \<times> db" where
  "logoutClient w req d =
     (case auth_client req of
        None \<Rightarrow> (Inl (Thrown ''TypeError''), d)
      | Some i \<Rightarrow>
          (Inr \<lparr>status = 200, set_cookies = [],
                cleared_cookies = [''accessToken'', ''refreshToken''],
                envelope = \<lparr>statusCode = 200, data = JObj [],
                            message = Some ''Client logged out successfully''\<rparr>\<rparr>,
           findByIdAndUpdate_refreshToken_null w i d))"

definition assign_fields :: "deps \<Rightarrow> request \<Rightarrow> client \<Rightarrow> client option" where
  \<comment> \<open>\<^verbatim>\<open>Object.assign(client, { name, email, phone, age, gender })\<close> through the
      schema's setters and casts. \<open>None\<close>: a required path was assigned \<^verbatim>\<open>undefined\<close>
      or the age does not cast, so the validation of the following save fails.\<close>
  "assign_fields D req c =
     (case (body req ''name'', body req ''email'', body req ''phone'', body req ''age'',
            body req ''gender'') of
        (Some nm, Some em, Some ph, Some ag, Some gd) \<Rightarrow>
          (case castNumber D ag of
             None \<Rightarrow> None
           | Some a \<Rightarrow>
               Some (c\<lparr>name := trim nm, email := trim em, phone := trim ph, age := a,
                        gender := gd\<rparr>))
      | _ \<Rightarrow> None)"

definition updateClient :: "deps \<Rightarrow> world \<Rightarrow> request \<Rightarrow> db \<Rightarrow> (error + response) \<times> db" where
  "updateClient D w req d =
     (case auth_client req of
        None \<Rightarrow> (Inl (Thrown ''TypeError''), d)
      | Some i \<Rightarrow>
          (case findById d i of
             None \<Rightarrow> (Inl (ApiError 404 ''Client not found''), d)
           | Some c \<Rightarrow>
               if (body req ''email'' \<noteq> Some (email c) \<or> body req ''phone'' \<noteq> Some (phone c))
                  \<and> find (\<lambda>x. (matches_email (body req ''email'') x
                                   \<or> matches_phone (body req ''phone'') x) \<and> oid x \<noteq> oid c) d
                      \<noteq> None
               then (Inl (ApiError 400 ''Email or phone already in use''), d)
               else
                 let c1 = (case body req ''password'' of
                             None \<Rightarrow> c
                           | Some pw \<Rightarrow>
                               if pw \<noteq> []
                               then c\<lparr>password := bcrypt_hash D pw (salt_controller w)\<rparr>
                               else c)
                 in (case (if truthy (file_path req)
                           then map_option (\<lambda>u. c1\<lparr>avatar := u\<rparr>)
                                  (uploadToCloud D (case file_path req of Some p \<Rightarrow> p | None \<Rightarrow> []))
                           else Some c1) of
                       None \<Rightarrow> (Inl (Thrown ''UploadError''), d)
                     | Some c2 \<Rightarrow>
                         (case assign_fields D req c2 of
                            None \<Rightarrow> (Inl (Thrown ''ValidationError''), d)
                          | Some c3 \<Rightarrow>
                              (case save D w True c c3 d of
                                 (Inl e, d1) \<Rightarrow> (Inl e, d1)
                               | (Inr stored, d1) \<Rightarrow>
                                   (Inr (plain_response 200 (JObj (doc_of stored))
                                           (Some ''Client updated successfully'')), d1))))))"

definition refreshAccessToken :: "deps \<Rightarrow> env \<Rightarrow> world \<Rightarrow> request \<Rightarrow> db \<Rightarrow> (error + response) \<times> db" where
  "refreshAccessToken D E w req d =
     (case or_else (cookies req ''refreshToken'') (body req ''refreshToken'') of
        None \<Rightarrow> (Inl (ApiError 401 ''Unauthorized request''), d)
      | Some incomingToken \<Rightarrow>
          if incomingToken = [] then (Inl (ApiError 401 ''Unauthorized request''), d)
          else
            (case jwt_verify D incomingToken (REFRESH_TOKEN_SECRET E) (now w div 1000) of
               None \<Rightarrow> (Inl (Thrown ''JsonWebTokenError''), d)
             | Some decodedToken \<Rightarrow>
                 (case (case payload_id decodedToken of None \<Rightarrow> None | Some i \<Rightarrow> findById d i) of
                    None \<Rightarrow> (Inl (ApiError 401 ''Invalid or expired refresh token''), d)
                  | Some c \<Rightarrow>
                      if strict_neq (refreshToken c) incomingToken
                      then (Inl (ApiError 401 ''Invalid or expired refresh token''), d)
                      else
                        (case generateAccessRefreshTokens D E w (oid c) d of
                           (Inl e, d1) \<Rightarrow> (Inl e, d1)
                         | (Inr (atok, rtok), d1) \<Rightarrow>
                             (Inr (token_response 200 atok rtok
                                     (JObj [(''accessToken'', JStr atok), (''refreshToken'', JStr rtok)])
                                     (Some ''Token refreshed'')), d1)))))"

definition verifyOtp :: "deps \<Rightarrow> env \<Rightarrow> world \<Rightarrow> request \<Rightarrow> db \<Rightarrow> (error + response) \<times> db" where
  "verifyOtp D E w req d =
     (case (body req ''clientId'', body req ''otp'') of
        (Some clientId, Some code) \<Rightarrow>
          if clientId = [] \<or> code = []
          then (Inl (ApiError 400 ''Client ID and OTP are required''), d)
          else
            (case findById_cast D d clientId of
               Inl e \<Rightarrow> (Inl e, d)
             | Inr None \<Rightarrow> (Inl (ApiError 404 ''Client not found''), d)
             | Inr (Some c) \<Rightarrow>
                 if strict_neq (otp c) code \<or> date_lt (otpExpires c) (now w)
                 then (Inl (ApiError 400 ''Invalid or expired OTP''), d)
                 else
                   (case save D w True c (c\<lparr>verified := True, otp := Null, otpExpires := Null\<rparr>) d of
                      (Inl e, d1) \<Rightarrow> (Inl e, d1)
                    | (Inr c1, d1) \<Rightarrow>
                        let accessToken = jwt_sign D (IdClaims (oid c1)) (ACCESS_TOKEN_SECRET E)
                                            (ACCESS_TOKEN_EXPIRY E) (now w div 1000);
                            refreshToken' = jwt_sign D (IdClaims (oid c1)) (REFRESH_TOKEN_SECRET E)
                                              (REFRESH_TOKEN_EXPIRY E) (now w div 1000)
                        in (Inr (token_response 200 accessToken refreshToken'
                                   (JObj [(''clientId'', JOid (oid c1)),
                                          (''message'', JStr ''OTP verified successfully!'')])
                                   None), d1)))
      | _ \<Rightarrow> (Inl (ApiError 400 ''Client ID and OTP are required''), d))"

definition project :: "string list \<Rightarrow> client option \<Rightarrow> json" where
  \<comment> \<open>A query with an exclusion projection: \<^verbatim>\<open>null\<close> when no document was found.\<close>
  "project ks r = (case r of None \<Rightarrow> JNull | Some c \<Rightarrow> JObj (select_excl ks (doc_of c)))"

definition getCurrentClient :: "request \<Rightarrow> db \<Rightarrow> error + response" where
  "getCurrentClient req d =
     (case auth_client req of
        None \<Rightarrow> Inl (Thrown ''TypeError'')
      | Some i \<Rightarrow>
          Inr (plain_response 200
                 (project [''password'', ''refreshToken'', ''otp'', ''otpExpires'', ''__v'']
                    (findById d i))
                 (Some ''Current Client Data'')))"

text \<open>
  The listing. The store compares values of different types by type first (null, numbers,
  strings, ids, booleans, dates) and strings by their bytes; a missing path sorts as null.
  How it orders documents with equal keys is not fixed; the model keeps them in their
  stored order (reversed for a descending sort). A limit of zero is no limit, a negative
  limit is taken by its absolute value, and the store rejects a negative or NaN skip
  and a NaN limit.
\<close>

definition bson_key :: "json option \<Rightarrow> nat \<times> int \<times> nat list" where
  "bson_key v =
     (case v of
        Some (JNum (Num n)) \<Rightarrow> (2, n, [])
      | Some (JStr s) \<Rightarrow> (3, 0, map of_char s)
      | Some (JOid s) \<Rightarrow> (8, 0, map of_char s)
      | Some (JBool b) \<Rightarrow> (9, if b then 1 else 0, [])
      | Some (JDate t) \<Rightarrow> (10, int t, [])
      | _ \<Rightarrow> (1, 0, []))"

definition sort_docs :: "string \<Rightarrow> bool \<Rightarrow> db \<Rightarrow> db" where
  "sort_docs f asc d =
     (let s = sort_key (\<lambda>c. bson_key (map_of (doc_of c) f)) d in if asc then s else rev s)"

definition apply_limit :: "int \<Rightarrow> 'a list \<Rightarrow> 'a list" where
  "apply_limit l xs = (if l = 0 then xs else take (nat \<bar>l\<bar>) xs)"

definition list_filter :: "request \<Rightarrow> client \<Rightarrow> bool" where
  \<comment> \<open>\<^verbatim>\<open>filter.verified = verified === 'true'\<close> when the parameter is present,
      \<^verbatim>\<open>filter.gender = gender\<close> when it is truthy.\<close>
  "list_filter req c =
     ((case query req ''verified'' of None \<Rightarrow> True | Some v \<Rightarrow> verified c = (v = ''true''))
      \<and> (case query req ''gender'' of None \<Rightarrow> True | Some g \<Rightarrow> g = [] \<or> gender c = g))"

definition query_int :: "request \<Rightarrow> string \<Rightarrow> int \<Rightarrow> int option" where
  \<comment> \<open>\<^verbatim>\<open>parseInt\<close> of a query parameter with its default.\<close>
  "query_int req k dflt = (case query req k of None \<Rightarrow> Some dflt | Some s \<Rightarrow> parseInt s)"

definition getAllClients :: "request \<Rightarrow> db \<Rightarrow> error + response" where
  "getAllClients req d =
     (case (query_int req ''page'' 1, query_int req ''limit'' 10) of
        (Some page, Some limit) \<Rightarrow>
          let sortBy = (case query req ''sortBy'' of None \<Rightarrow> ''createdAt'' | Some f \<Rightarrow> f);
              asc = (query req ''sortOrder'' = Some ''asc'');
              skip = (page - 1) * limit;
              totalClients = length (filter (list_filter req) d)
          in if skip < 0 then Inl (Thrown ''StoreError'')
             else
               let found = apply_limit limit
                             (drop (nat skip) (sort_docs sortBy asc (filter (list_filter req) d)));
                   clients = map (\<lambda>c. JObj (select_excl
                                    [''password'', ''refreshToken'', ''otp'', ''otpExpires'',
                                     ''verificationToken''] (doc_of c))) found;
                   totalPages = ceil_div totalClients limit
               in Inr (plain_response 200
                         (JObj [(''clients'', JArr clients),
                                (''pagination'',
                                 JObj [(''currentPage'', JNum (Num page)),
                                       (''totalPages'', JNum totalPages),
                                       (''totalClients'', JNum (Num (int totalClients))),
                                       (''hasNextPage'', JBool (num_lt page totalPages)),
                                       (''hasPrevPage'', JBool (1 < page))])])
                         (Some ''Clients retrieved successfully''))
      | _ \<Rightarrow> Inl (Thrown ''StoreError''))"

definition getClientById :: "deps \<Rightarrow> request \<Rightarrow> db \<Rightarrow> error + response" where
  "getClientById D req d =
     (case params req ''clientId'' of
        None \<Rightarrow> Inl (ApiError 400 ''Client ID is required'')
      | Some clientId \<Rightarrow>
          if clientId = [] then Inl (ApiError 400 ''Client ID is required'')
          else
            (case findById_cast D d clientId of
               Inl e \<Rightarrow> Inl e
             | Inr None \<Rightarrow> Inl (ApiError 404 ''Client not found'')
             | Inr (Some c) \<Rightarrow>
                 Inr (plain_response 200
                        (project [''password'', ''refreshToken'', ''otp'', ''otpExpires'',
                                  ''verificationToken''] (Some c))
                        (Some ''Client retrieved successfully''))))"

section \<open>Sample collaborators and states\<close>

text \<open>
  One concrete choice of the collaborators, small enough to evaluate. The hasher ignores
  its salt and marks the text; a token lists the secret, the subject and the issue time.
  The number cast is \<open>parseInt\<close>, which agrees with the cast of the store on the plain
  decimal numerals the samples use (the store rejects trailing text and reads exponents).
\<close>

definition sample_sign :: "payload \<Rightarrow> string \<Rightarrow> string \<Rightarrow> nat \<Rightarrow> string" where
  "sample_sign p s e t =
     s @ ''.'' @ (case p of IdClaims i \<Rightarrow> ''R'' @ i
                  | AccessClaims i em u v \<Rightarrow> ''A'' @ i
                  | EmailClaims em \<Rightarrow> ''E'' @ em) @ ''.'' @ replicate t CHR ''i''"

definition sample_verify :: "string \<Rightarrow> string \<Rightarrow> nat \<Rightarrow> payload option" where
  "sample_verify tok s n =
     (if take (length s) tok = s
      then (case drop (length s) tok of
              c1 # c2 # rest \<Rightarrow>
                if c1 = CHR ''.'' \<and> c2 = CHR ''R''
                then Some (IdClaims (takeWhile (\<lambda>c. c \<noteq> CHR ''.'') rest))
                else None
            | _ \<Rightarrow> None)
      else None)"

definition sample_deps :: deps where
  "sample_deps =
     \<lparr>bcrypt_hash = (\<lambda>p s. CHR ''#'' # p),
      bcrypt_compare = (\<lambda>p h. h = CHR ''#'' # p),
      jwt_sign = sample_sign,
      jwt_verify = sample_verify,
      uploadToCloud = (\<lambda>p. Some (''cdn/'' @ p)),
      sendOtp = (\<lambda>ph code. True),
      sendMail = (\<lambda>f t s h. True),
      castObjectId = (\<lambda>s. if s = [] then None else Some s),
      castNumber = parseInt\<rparr>"

text \<open>
  A second verifier, which also honours the lifetime of a token: a sample token shows its
  issue second as the number of its trailing marks, and the verifier rejects it from the
  second on in which the lifetime has passed. The collaborators \<open>expiring_deps\<close> use it
  with the seven days of the refresh token.
\<close>

definition expiring_verify :: "nat \<Rightarrow> string \<Rightarrow> string \<Rightarrow> nat \<Rightarrow> payload option" where
  "expiring_verify life tok s n =
     (if length (takeWhile (\<lambda>c. c = CHR ''i'') (rev tok)) + life \<le> n then None
      else sample_verify tok s n)"

definition expiring_deps :: deps where
  "expiring_deps = sample_deps\<lparr>jwt_verify := expiring_verify 604800\<rparr>"

definition sample_env :: env where
  "sample_env =
     \<lparr>ACCESS_TOKEN_SECRET = ''ka'', ACCESS_TOKEN_EXPIRY = ''15m'',
      REFRESH_TOKEN_SECRET = ''kr'', REFRESH_TOKEN_EXPIRY = ''7d'',
      EMAIL_SECRET = ''ke'', EMAIL_USER = ''noreply''\<rparr>"

definition sample_world :: "nat \<Rightarrow> world" where
  "sample_world t =
     \<lparr>now = t, rand = 23456, salt_controller = ''s1'', salt_hook = ''s2'', new_oid = ''c1''\<rparr>"

definition sample_request :: "(string \<times> string) list \<Rightarrow> request" where
  \<comment> \<open>A request that carries only a body.\<close>
  "sample_request kvs =
     \<lparr>body = map_of kvs, cookies = Map.empty, query = Map.empty, params = Map.empty,
      file_path = None, auth_client = None\<rparr>"

definition register_request :: request where
  "register_request =
     sample_request [(''name'', ''Ann''), (''email'', ''ann@x.io''), (''phone'', ''+4912345''),
                     (''password'', ''pw1''), (''age'', ''30''), (''gender'', ''Female'')]"

definition sample_client :: client where
  \<comment> \<open>The record that \<open>register_request\<close> leaves in an empty store at time 1200.\<close>
  "sample_client =
     \<lparr>oid = ''c1'', name = ''Ann'', email = ''ann@x.io'', age = 30, gender = ''Female'',
      password = ''#pw1'', phone = ''+4912345'', avatar = [], verified = False,
      refreshToken = Val ''kr.Rc1.i'', verificationToken = Val ''ke.Eann@x.io.i'',
      tokenVersion = 0, otp = Val ''123456'', otpExpires = Val 301200,
      createdAt = 1200, updatedAt = 1200, versionKey = 0\<rparr>"

definition email_otp_request :: "string \<Rightarrow> request" where
  "email_otp_request code = sample_request [(''email'', ''ann@x.io''), (''otp'', code)]"

definition id_otp_request :: "string \<Rightarrow> request" where
  "id_otp_request code = sample_request [(''clientId'', ''c1''), (''otp'', code)]"

definition login_request :: "string \<Rightarrow> request" where
  "login_request pw = sample_request [(''email'', ''ann@x.io''), (''password'', pw)]"

definition auth_request :: "string \<Rightarrow> request" where
  \<comment> \<open>A request of the authenticated client \<open>i\<close> with the id \<open>i\<close> as path parameter.\<close>
  "auth_request i =
     \<lparr>body = Map.empty, cookies = Map.empty, query = Map.empty,
      params = [''clientId'' \<mapsto> i], file_path = None, auth_client = Some i\<rparr>"

definition page_request :: "string \<Rightarrow> string \<Rightarrow> request" where
  "page_request p l =
     \<lparr>body = Map.empty, cookies = Map.empty, query = [''page'' \<mapsto> p, ''limit'' \<mapsto> l],
      params = Map.empty, file_path = None, auth_client = None\<rparr>"

definition sample_clients :: "nat \<Rightarrow> db" where
  \<comment> \<open>\<open>n\<close> records that differ in their ids.\<close>
  "sample_clients n = map (\<lambda>k. sample_client\<lparr>oid := dec k\<rparr>) [0..<n]"

definition update_request :: "string \<Rightarrow> request" where
  \<comment> \<open>The client \<open>c1\<close> sends its profile unchanged, with a new password.\<close>
  "update_request pw =
     \<lparr>body = map_of [(''name'', ''Ann''), (''email'', ''ann@x.io''), (''phone'', ''+4912345''),
                      (''password'', pw), (''age'', ''30''), (''gender'', ''Female'')],
      cookies = Map.empty, query = Map.empty, params = Map.empty, file_path = None,
      auth_client = Some ''c1''\<rparr>"

definition cookie_request :: "string \<Rightarrow> request" where
  \<comment> \<open>A request that carries only the refresh token cookie.\<close>
  "cookie_request tok =
     \<lparr>body = Map.empty, cookies = [''refreshToken'' \<mapsto> tok], query = Map.empty,
      params = Map.empty, file_path = None, auth_client = None\<rparr>"

section \<open>Notions used in the statements\<close>

definition created ::
  "deps \<Rightarrow> env \<Rightarrow> world \<Rightarrow> string \<Rightarrow> string \<Rightarrow> string \<Rightarrow> string \<Rightarrow> int \<Rightarrow> string \<times> string
     \<Rightarrow> client" where
  \<comment> \<open>The document that a registration creates from the name, email, phone and password
      of the request, the cast age, the gender and the avatar.\<close>
  "created D E w nm em ph pw a ga =
     \<lparr>oid = new_oid w, name = trim nm, email = trim em, age = a, gender = fst ga,
      password = bcrypt_hash D pw (salt_hook w), phone = trim ph, avatar = snd ga,
      verified = False, refreshToken = Null,
      verificationToken = Val (jwt_sign D (EmailClaims em) (EMAIL_SECRET E) ''1d''
                                 (now w div 1000)),
      tokenVersion = 0, otp = Val (generateOTP (rand w)),
      otpExpires = Val (now w + 5 * 60 * 1000),
      createdAt = now w, updatedAt = now w, versionKey = 0\<rparr>"

definition stamp :: "world \<Rightarrow> client \<Rightarrow> client \<Rightarrow> client" where
  \<comment> \<open>What a successful save stores: the changed document, with a new \<open>updatedAt\<close>
      when it differs from the loaded one.\<close>
  "stamp w l doc = (if doc \<noteq> l then doc\<lparr>updatedAt := now w\<rparr> else doc)"

fun scalar :: "json \<Rightarrow> bool" where
  "scalar (JObj _) = False"
| "scalar (JArr _) = False"
| "scalar _ = True"

definition secret_paths :: "string list" where
  "secret_paths = [''password'', ''refreshToken'', ''otp'', ''otpExpires'']"

definition free_of :: "string list \<Rightarrow> json \<Rightarrow> bool" where
  \<comment> \<open>None of the keys occurs anywhere in the value.\<close>
  "free_of ks v = list_all (\<lambda>k. \<not> mentions k v) ks"

definition listed :: "client \<Rightarrow> json" where
  \<comment> \<open>A record as the listing shows it.\<close>
  "listed c =
     JObj (select_excl [''password'', ''refreshToken'', ''otp'', ''otpExpires'',
                        ''verificationToken''] (doc_of c))"

definition sorted_matches :: "request \<Rightarrow> db \<Rightarrow> db" where
  \<comment> \<open>The records the filter of the request selects, in the order the request asks for.\<close>
  "sorted_matches req d =
     sort_docs (case query req ''sortBy'' of None \<Rightarrow> ''createdAt'' | Some f \<Rightarrow> f)
       (query req ''sortOrder'' = Some ''asc'') (filter (list_filter req) d)"

definition bcrypt_sound :: "deps \<Rightarrow> bool" where
  \<comment> \<open>The contract of the hasher: a text verifies against the hash of that text and of no
      other, and a hash is never the text it was made of.\<close>
  "bcrypt_sound D =
     ((\<forall>p q s. bcrypt_compare D p (bcrypt_hash D q s) = (p = q))
      \<and> (\<forall>q s. bcrypt_hash D q s \<noteq> q))"

definition otp_paired :: "client \<Rightarrow> bool" where
  \<comment> \<open>The code and its expiry are both set or both cleared.\<close>
  "otp_paired c = (is_set (otp c) = is_set (otpExpires c))"

definition paired :: "db \<Rightarrow> bool" where
  "paired d = list_all otp_paired d"

definition presented :: "request \<Rightarrow> string option" where
  \<comment> \<open>\<^verbatim>\<open>req.cookies.refreshToken || req.body.refreshToken\<close>\<close>
  "presented req = or_else (cookies req ''refreshToken'') (body req ''refreshToken'')"

definition issue_time_separates :: "deps \<Rightarrow> bool" where
  \<comment> \<open>A contract of the token library: the issue time is part of the token, so two
      tokens signed in different seconds differ.\<close>
  "issue_time_separates D =
     (\<forall>p s e t t'. t \<noteq> t' \<longrightarrow> jwt_sign D p s e t \<noteq> jwt_sign D p s e t')"

definition issued :: "deps \<Rightarrow> env \<Rightarrow> world \<Rightarrow> client \<Rightarrow> client" where
  \<comment> \<open>The record after \<open>generateAccessRefreshTokens\<close> has saved a fresh refresh token on it.\<close>
  "issued D E w c = stamp w c (c\<lparr>refreshToken := Val (generateRefreshToken D E w c)\<rparr>)"

section \<open>The store and the token generator\<close>

lemma find_replace:
  "find P d = Some c \<Longrightarrow> P s \<Longrightarrow> find P (map (\<lambda>x. if oid x = oid c then s else x) d) = Some s"
  by (induction d) (auto split: if_splits)

lemma find_SomeD: "find P d = Some c \<Longrightarrow> P c"
  by (auto simp: find_Some_iff)

lemma findById_Some: "findById d i = Some c \<Longrightarrow> oid c = i \<and> c \<in> set d"
  by (auto simp: findById_def find_Some_iff)

lemma findById_replace:
  "findById d i = Some c \<Longrightarrow> oid s = i \<Longrightarrow>
   findById (map (\<lambda>x. if oid x = i then s else x) d) i = Some s"
  unfolding findById_def
  by (induction d) (auto split: if_splits)

lemma findOne_email_replace:
  assumes "findOne_email d (Some em) = Some c" "email s = email c"
  shows "findOne_email (map (\<lambda>x. if oid x = oid c then s else x) d) (Some em) = Some s"
proof -
  from assms(1) have f: "find (\<lambda>x. email x = trim em) d = Some c"
    by (simp add: findOne_email_def)
  from find_SomeD [OF f] assms(2) have "email s = trim em" by simp
  with f have "find (\<lambda>x. email x = trim em) (map (\<lambda>x. if oid x = oid c then s else x) d) = Some s"
    by (rule find_replace)
  then show ?thesis by (simp add: findOne_email_def)
qed

lemma strict_neq_iff: "strict_neq f s \<longleftrightarrow> f \<noteq> Val s"
  by (cases f) auto

lemma stamp_fields:
  "oid (stamp w l doc) = oid doc" "otp (stamp w l doc) = otp doc"
  "otpExpires (stamp w l doc) = otpExpires doc" "verified (stamp w l doc) = verified doc"
  "email (stamp w l doc) = email doc" "refreshToken (stamp w l doc) = refreshToken doc"
  "password (stamp w l doc) = password doc" "phone (stamp w l doc) = phone doc"
  by (simp_all add: stamp_def)

lemma save_Inl: "save D w v l doc d = (Inl e, d') \<Longrightarrow> d' = d"
  by (auto simp: save_def Let_def split: if_splits)

lemma save_Inr:
  "save D w v l doc d = (Inr s, d') \<Longrightarrow>
     d' = map (\<lambda>c. if oid c = oid doc then s else c) d \<and> oid s = oid doc
     \<and> refreshToken s = refreshToken doc \<and> otp s = otp doc \<and> otpExpires s = otpExpires doc
     \<and> verified s = verified doc \<and> email s = email doc \<and> phone s = phone doc
     \<and> password s = (if password doc \<noteq> password l
                       then bcrypt_hash D (password doc) (salt_hook w) else password doc)"
  by (auto simp: save_def Let_def split: if_splits)

lemma save_plain:
  "v \<longrightarrow> schema_valid doc \<Longrightarrow> password doc = password l \<Longrightarrow> email doc = email l \<Longrightarrow>
   phone doc = phone l \<Longrightarrow>
   save D w v l doc d =
     (Inr (stamp w l doc), map (\<lambda>c. if oid c = oid doc then stamp w l doc else c) d)"
  by (auto simp: save_def Let_def stamp_def)

lemma generate_ok:
  "i \<noteq> [] \<Longrightarrow> findById d i = Some c \<Longrightarrow>
   generateAccessRefreshTokens D E w i d =
     (Inr (generateAccessToken D E w c, generateRefreshToken D E w c),
      map (\<lambda>x. if oid x = i then issued D E w c else x) d)"
  apply (frule findById_Some)
  apply (simp add: generateAccessRefreshTokens_def Let_def save_plain issued_def)
  done

lemma issued_fields:
  "refreshToken (issued D E w c) = Val (generateRefreshToken D E w c)"
  "oid (issued D E w c) = oid c" "otp (issued D E w c) = otp c"
  "otpExpires (issued D E w c) = otpExpires c"
  "email (issued D E w c) = email c" "password (issued D E w c) = password c"
  "verified (issued D E w c) = verified c"
  by (simp_all add: issued_def stamp_fields)

lemma generate_cases:
  assumes "generateAccessRefreshTokens D E w i d = (r, d')"
  shows "(\<exists>e. r = Inl e \<and> d' = d)
     \<or> (\<exists>c. findById d i = Some c \<and> i \<noteq> []
            \<and> r = Inr (generateAccessToken D E w c, generateRefreshToken D E w c)
            \<and> d' = map (\<lambda>x. if oid x = i then issued D E w c else x) d)"
proof (cases "i = []")
  case True
  with assms show ?thesis by (auto simp: generateAccessRefreshTokens_def)
next
  case False
  show ?thesis
  proof (cases "findById d i")
    case None
    with False assms show ?thesis by (auto simp: generateAccessRefreshTokens_def)
  next
    case (Some c)
    with False assms show ?thesis by (simp add: generate_ok)
  qed
qed

section \<open>Evaluating the samples\<close>

lemmas sample_defs = sample_deps_def sample_env_def sample_world_def sample_request_def
  sample_client_def sample_sign_def sample_verify_def register_request_def
  email_otp_request_def id_otp_request_def cookie_request_def login_request_def
  auth_request_def page_request_def update_request_def

lemma sample_client_valid: "schema_valid sample_client"
  by (simp add: schema_valid_def sample_client_def phone_ok_def digit_of_def is_digit_def)

lemma trim_ann: "trim ''ann@x.io'' = ''ann@x.io''"
  by (simp add: trim_def is_space_def)

lemma otp_sample: "generateOTP 23456 = ''123456''"
  by (simp add: generateOTP_def dec.simps digit_char_def)

lemma register_eval:
  "snd (registerClient sample_deps sample_env (sample_world 1200) register_request [])
     = [sample_client]"
  by (simp add: registerClient_def sample_defs blank_def trim_def is_space_def
        findOne_email_or_phone_def otp_sample create_def schema_valid_def
        phone_ok_def digit_of_def is_digit_def parseInt_def parse_unsigned_def
        generateAccessRefreshTokens_def findById_def save_def generateRefreshToken_def
        generateAccessToken_def Let_def otp_mail_def)

section \<open>Login\<close>

lemma login_success:
  assumes "findOne_email d (body req ''email'') = Some c"
    and "body req ''password'' = Some p"
    and "bcrypt_compare D p (password c)"
    and "verified c"
    and "oid c \<noteq> []"
    and "findById d (oid c) = Some c"
  shows "loginClient D E w req d =
     (Inr (token_response 200 (generateAccessToken D E w c) (generateRefreshToken D E w c)
             (JObj [(''client'', JObj (select_excl [''password'', ''refreshToken'']
                                         (doc_of (issued D E w c)))),
                    (''accessToken'', JStr (generateAccessToken D E w c)),
                    (''refreshToken'', JStr (generateRefreshToken D E w c))])
             (Some ''Client logged in successfully!'')),
      map (\<lambda>x. if oid x = oid c then issued D E w c else x) d)"
proof -
  have g: "generateAccessRefreshTokens D E w (oid c) d =
     (Inr (generateAccessToken D E w c, generateRefreshToken D E w c),
      map (\<lambda>x. if oid x = oid c then issued D E w c else x) d)"
    using assms(5,6) by (rule generate_ok)
  have f: "findById (map (\<lambda>x. if oid x = oid c then issued D E w c else x) d) (oid c)
             = Some (issued D E w c)"
    using assms(6) by (rule findById_replace) (simp add: issued_fields)
  show ?thesis
    using assms(1-4) by (simp add: loginClient_def isPasswordCorrect_def g f)
qed

text \<open>
  Claim C4, as the code has it. A login request fails with 404 when no record matches the
  email. When a record matches, the password of the request goes to the comparison of the
  hasher: a request that carries no password ends in the error the hasher throws for an
  argument that is not a string, which is neither 404 nor 401, and the store stays as it
  was; a password that does not verify against the stored hash gives 401; a password that
  verifies on a record that is not verified gives 401. A login that succeeds had a matching
  record, a password that verifies and \<open>verified = true\<close>, and such a record (with a
  proper id) is issued the token pair.
\<close>

theorem login_gates:
  "(findOne_email d (body req ''email'') = None \<longrightarrow>
      loginClient D E w req d = (Inl (ApiError 404 ''Requested user doesn't exist''), d))
   \<and> (\<forall>c. findOne_email d (body req ''email'') = Some c \<and> body req ''password'' = None \<longrightarrow>
        loginClient D E w req d = (Inl (Thrown ''Illegal arguments''), d))
   \<and> (\<forall>c p. findOne_email d (body req ''email'') = Some c \<and> body req ''password'' = Some p
          \<and> \<not> bcrypt_compare D p (password c) \<longrightarrow>
        loginClient D E w req d = (Inl (ApiError 401 ''Invalid user credentials''), d))
   \<and> (\<forall>c p. findOne_email d (body req ''email'') = Some c \<and> body req ''password'' = Some p
          \<and> bcrypt_compare D p (password c) \<and> \<not> verified c \<longrightarrow>
        loginClient D E w req d = (Inl (ApiError 401 ''Please verify your email first''), d))
   \<and> (\<forall>r d'. loginClient D E w req d = (Inr r, d') \<longrightarrow>
        (\<exists>c p. findOne_email d (body req ''email'') = Some c \<and> body req ''password'' = Some p
           \<and> bcrypt_compare D p (password c) \<and> verified c))
   \<and> (\<forall>c p. findOne_email d (body req ''email'') = Some c \<and> body req ''password'' = Some p
          \<and> bcrypt_compare D p (password c) \<and> verified c \<and> oid c \<noteq> []
          \<and> findById d (oid c) = Some c \<longrightarrow>
        (\<exists>r d'. loginClient D E w req d = (Inr r, d')
           \<and> set_cookies r = [(''accessToken'', generateAccessToken D E w c),
                               (''refreshToken'', generateRefreshToken D E w c)]))"
proof (intro conjI allI impI)
  assume "findOne_email d (body req ''email'') = None"
  then show "loginClient D E w req d = (Inl (ApiError 404 ''Requested user doesn't exist''), d)"
    by (simp add: loginClient_def)
next
  fix c
  assume "findOne_email d (body req ''email'') = Some c \<and> body req ''password'' = None"
  then show "loginClient D E w req d = (Inl (Thrown ''Illegal arguments''), d)"
    by (simp add: loginClient_def isPasswordCorrect_def)
next
  fix c p
  assume "findOne_email d (body req ''email'') = Some c \<and> body req ''password'' = Some p
          \<and> \<not> bcrypt_compare D p (password c)"
  then show "loginClient D E w req d = (Inl (ApiError 401 ''Invalid user credentials''), d)"
    by (simp add: loginClient_def isPasswordCorrect_def)
next
  fix c p
  assume "findOne_email d (body req ''email'') = Some c \<and> body req ''password'' = Some p
          \<and> bcrypt_compare D p (password c) \<and> \<not> verified c"
  then show "loginClient D E w req d = (Inl (ApiError 401 ''Please verify your email first''), d)"
    by (simp add: loginClient_def isPasswordCorrect_def)
next
  fix r d'
  assume ok: "loginClient D E w req d = (Inr r, d')"
  show "\<exists>c p. findOne_email d (body req ''email'') = Some c \<and> body req ''password'' = Some p
           \<and> bcrypt_compare D p (password c) \<and> verified c"
  proof (cases "findOne_email d (body req ''email'')")
    case None
    with ok show ?thesis by (simp add: loginClient_def)
  next
    case (Some c)
    show ?thesis
    proof (cases "body req ''password''")
      case None
      with Some ok show ?thesis by (simp add: loginClient_def isPasswordCorrect_def)
    next
      case (Some p)
      with \<open>findOne_email d (body req ''email'') = Some c\<close> ok show ?thesis
        by (auto simp: loginClient_def isPasswordCorrect_def split: if_splits)
    qed
  qed
next
  fix c p
  assume h: "findOne_email d (body req ''email'') = Some c \<and> body req ''password'' = Some p
          \<and> bcrypt_compare D p (password c) \<and> verified c \<and> oid c \<noteq> []
          \<and> findById d (oid c) = Some c"
  then have "loginClient D E w req d =
     (Inr (token_response 200 (generateAccessToken D E w c) (generateRefreshToken D E w c)
             (JObj [(''client'', JObj (select_excl [''password'', ''refreshToken'']
                                         (doc_of (issued D E w c)))),
                    (''accessToken'', JStr (generateAccessToken D E w c)),
                    (''refreshToken'', JStr (generateRefreshToken D E w c))])
             (Some ''Client logged in successfully!'')),
      map (\<lambda>x. if oid x = oid c then issued D E w c else x) d)"
    using login_success [of d req c p D E w] by blast
  then show "\<exists>r d'. loginClient D E w req d = (Inr r, d')
           \<and> set_cookies r = [(''accessToken'', generateAccessToken D E w c),
                               (''refreshToken'', generateRefreshToken D E w c)]"
    by (simp add: token_response_def)
qed

theorem login_gates_witness:
  "loginClient sample_deps sample_env (sample_world 5000)
      (sample_request [(''email'', ''bob@x.io''), (''password'', ''pw1'')]) [sample_client]
     = (Inl (ApiError 404 ''Requested user doesn't exist''), [sample_client])
   \<and> loginClient sample_deps sample_env (sample_world 5000)
      (sample_request [(''email'', ''ann@x.io'')]) [sample_client]
     = (Inl (Thrown ''Illegal arguments''), [sample_client])
   \<and> loginClient sample_deps sample_env (sample_world 5000)
      (sample_request [(''email'', ''ann@x.io''), (''password'', ''guess'')]) [sample_client]
     = (Inl (ApiError 401 ''Invalid user credentials''), [sample_client])
   \<and> loginClient sample_deps sample_env (sample_world 5000)
      (sample_request [(''email'', ''ann@x.io''), (''password'', ''pw1'')]) [sample_client]
     = (Inl (ApiError 401 ''Please verify your email first''), [sample_client])
   \<and> (\<exists>r d'. loginClient sample_deps sample_env (sample_world 5000)
          (sample_request [(''email'', ''ann@x.io''), (''password'', ''pw1'')])
          [sample_client\<lparr>verified := True, otp := Null,
               otpExpires := Null, updatedAt := 5000\<rparr>] = (Inr r, d')
        \<and> set_cookies r =
            [(''accessToken'', generateAccessToken sample_deps sample_env (sample_world 5000)
                                 (sample_client\<lparr>verified := True, otp := Null,
               otpExpires := Null, updatedAt := 5000\<rparr>)),
             (''refreshToken'', generateRefreshToken sample_deps sample_env (sample_world 5000)
                                  (sample_client\<lparr>verified := True, otp := Null,
               otpExpires := Null, updatedAt := 5000\<rparr>))])"
proof -
  have bob: "trim ''bob@x.io'' = ''bob@x.io''"
    by (simp add: trim_def is_space_def)
  have 1: "findOne_email [sample_client]
             (body (sample_request [(''email'', ''bob@x.io''), (''password'', ''pw1'')]) ''email'')
           = None"
    by (simp add: findOne_email_def sample_request_def sample_client_def bob)
  have 0: "findOne_email [sample_client]
             (body (sample_request [(''email'', ''ann@x.io'')]) ''email'') = Some sample_client
           \<and> body (sample_request [(''email'', ''ann@x.io'')]) ''password'' = None"
    by (simp add: findOne_email_def sample_request_def sample_client_def trim_ann)
  have 2: "findOne_email [sample_client]
             (body (sample_request [(''email'', ''ann@x.io''), (''password'', ''guess'')]) ''email'')
             = Some sample_client
           \<and> body (sample_request [(''email'', ''ann@x.io''), (''password'', ''guess'')]) ''password''
             = Some ''guess''
           \<and> \<not> bcrypt_compare sample_deps ''guess'' (password sample_client)"
    by (simp add: findOne_email_def sample_request_def sample_client_def sample_deps_def trim_ann)
  have 3: "findOne_email [sample_client]
             (body (sample_request [(''email'', ''ann@x.io''), (''password'', ''pw1'')]) ''email'')
             = Some sample_client
           \<and> body (sample_request [(''email'', ''ann@x.io''), (''password'', ''pw1'')]) ''password''
             = Some ''pw1''
           \<and> bcrypt_compare sample_deps ''pw1'' (password sample_client)
           \<and> \<not> verified sample_client"
    by (simp add: findOne_email_def sample_request_def sample_client_def sample_deps_def trim_ann)
  have 4: "findOne_email [sample_client\<lparr>verified := True, otp := Null,
               otpExpires := Null, updatedAt := 5000\<rparr>]
             (body (sample_request [(''email'', ''ann@x.io''), (''password'', ''pw1'')]) ''email'')
             = Some (sample_client\<lparr>verified := True, otp := Null,
               otpExpires := Null, updatedAt := 5000\<rparr>)
           \<and> body (sample_request [(''email'', ''ann@x.io''), (''password'', ''pw1'')]) ''password''
             = Some ''pw1''
           \<and> bcrypt_compare sample_deps ''pw1'' (password (sample_client\<lparr>verified := True, otp := Null,
               otpExpires := Null, updatedAt := 5000\<rparr>))
           \<and> verified (sample_client\<lparr>verified := True, otp := Null,
               otpExpires := Null, updatedAt := 5000\<rparr>)
           \<and> oid (sample_client\<lparr>verified := True, otp := Null,
               otpExpires := Null, updatedAt := 5000\<rparr>) \<noteq> []
           \<and> findById [sample_client\<lparr>verified := True, otp := Null,
               otpExpires := Null, updatedAt := 5000\<rparr>] (oid (sample_client\<lparr>verified := True, otp := Null,
               otpExpires := Null, updatedAt := 5000\<rparr>))
             = Some (sample_client\<lparr>verified := True, otp := Null,
               otpExpires := Null, updatedAt := 5000\<rparr>)"
    by (simp add: findOne_email_def findById_def sample_request_def sample_client_def
          sample_deps_def trim_ann)
  have A: "loginClient sample_deps sample_env (sample_world 5000)
      (sample_request [(''email'', ''bob@x.io''), (''password'', ''pw1'')]) [sample_client]
     = (Inl (ApiError 404 ''Requested user doesn't exist''), [sample_client])"
    by (rule login_gates [THEN conjunct1, rule_format]) (rule 1)
  have N: "loginClient sample_deps sample_env (sample_world 5000)
      (sample_request [(''email'', ''ann@x.io'')]) [sample_client]
     = (Inl (Thrown ''Illegal arguments''), [sample_client])"
    by (rule login_gates [THEN conjunct2, THEN conjunct1, rule_format]) (rule 0)
  have B: "loginClient sample_deps sample_env (sample_world 5000)
      (sample_request [(''email'', ''ann@x.io''), (''password'', ''guess'')]) [sample_client]
     = (Inl (ApiError 401 ''Invalid user credentials''), [sample_client])"
    by (rule login_gates [THEN conjunct2, THEN conjunct2, THEN conjunct1, rule_format]) (rule 2)
  have C: "loginClient sample_deps sample_env (sample_world 5000)
      (sample_request [(''email'', ''ann@x.io''), (''password'', ''pw1'')]) [sample_client]
     = (Inl (ApiError 401 ''Please verify your email first''), [sample_client])"
    by (rule login_gates [THEN conjunct2, THEN conjunct2, THEN conjunct2, THEN conjunct1,
          rule_format]) (rule 3)
  have D: "\<exists>r d'. loginClient sample_deps sample_env (sample_world 5000)
          (sample_request [(''email'', ''ann@x.io''), (''password'', ''pw1'')])
          [sample_client\<lparr>verified := True, otp := Null,
               otpExpires := Null, updatedAt := 5000\<rparr>] = (Inr r, d')
        \<and> set_cookies r =
            [(''accessToken'', generateAccessToken sample_deps sample_env (sample_world 5000)
                                 (sample_client\<lparr>verified := True, otp := Null,
               otpExpires := Null, updatedAt := 5000\<rparr>)),
             (''refreshToken'', generateRefreshToken sample_deps sample_env (sample_world 5000)
                                  (sample_client\<lparr>verified := True, otp := Null,
               otpExpires := Null, updatedAt := 5000\<rparr>))]"
    by (rule login_gates [THEN conjunct2, THEN conjunct2, THEN conjunct2, THEN conjunct2,
          THEN conjunct2, rule_format]) (rule 4)
  show ?thesis
    by (rule conjI [OF A conjI [OF N conjI [OF B conjI [OF C D]]]])
qed

text \<open>
  The claim as stated, that every request whose email matches a record fails with 401
  unless its password verifies, fails for a request that carries no password: for the client
  registered at 1200 ms a login with the email alone ends in the error of the hasher, not
  in 401.
\<close>

theorem login_absent_password_counterexample:
  "snd (registerClient sample_deps sample_env (sample_world 1200) register_request [])
     = [sample_client]
   \<and> findOne_email [sample_client] (body (sample_request [(''email'', ''ann@x.io'')]) ''email'')
     = Some sample_client
   \<and> isPasswordCorrect sample_deps sample_client
       (body (sample_request [(''email'', ''ann@x.io'')]) ''password'') = None
   \<and> loginClient sample_deps sample_env (sample_world 5000)
       (sample_request [(''email'', ''ann@x.io'')]) [sample_client]
     = (Inl (Thrown ''Illegal arguments''), [sample_client])"
proof -
  have f: "findOne_email [sample_client]
             (body (sample_request [(''email'', ''ann@x.io'')]) ''email'') = Some sample_client"
    by (simp add: findOne_email_def sample_request_def sample_client_def trim_ann)
  have p: "isPasswordCorrect sample_deps sample_client
             (body (sample_request [(''email'', ''ann@x.io'')]) ''password'') = None"
    by (simp add: isPasswordCorrect_def sample_request_def)
  have "loginClient sample_deps sample_env (sample_world 5000)
       (sample_request [(''email'', ''ann@x.io'')]) [sample_client]
     = (Inl (Thrown ''Illegal arguments''), [sample_client])"
    by (simp add: loginClient_def f p)
  with f p register_eval show ?thesis by simp
qed

section \<open>OTP verification\<close>

lemma verifyEmail_rejects:
  assumes "body req ''email'' = Some em" "em \<noteq> []" "body req ''otp'' = Some code" "code \<noteq> []"
    and "findOne_email d (Some em) = Some c"
    and "otp c \<noteq> Val code \<or> date_lt (otpExpires c) (now w)"
  shows "verifyEmail D w req d = (Inl (ApiError 400 ''Invalid or expired OTP''), d)"
  using assms by (auto simp: verifyEmail_def strict_neq_iff)

lemma verifyEmail_Inr:
  assumes "verifyEmail D w req d = (Inr r, d')"
  shows "\<exists>em code c s. body req ''email'' = Some em \<and> em \<noteq> [] \<and> body req ''otp'' = Some code
           \<and> code \<noteq> [] \<and> findOne_email d (Some em) = Some c \<and> otp c = Val code
           \<and> \<not> date_lt (otpExpires c) (now w)
           \<and> save D w True c (c\<lparr>verified := True, otp := Undefined, otpExpires := Undefined\<rparr>) d
                = (Inr s, d')"
  using assms
  by (auto simp: verifyEmail_def strict_neq_iff split: option.splits if_splits prod.splits sum.splits)

lemma verifyEmail_once:
  assumes "verifyEmail D w req d = (Inr r, d')"
  shows "(\<exists>c'. findOne_email d' (body req ''email'') = Some c' \<and> verified c'
            \<and> otp c' = Undefined \<and> otpExpires c' = Undefined)
         \<and> (\<forall>w'. verifyEmail D w' req d' = (Inl (ApiError 400 ''Invalid or expired OTP''), d'))"
proof -
  from verifyEmail_Inr [OF assms] obtain em code c s where
    h: "body req ''email'' = Some em" "em \<noteq> []" "body req ''otp'' = Some code" "code \<noteq> []"
       "findOne_email d (Some em) = Some c"
       "save D w True c (c\<lparr>verified := True, otp := Undefined, otpExpires := Undefined\<rparr>) d
          = (Inr s, d')"
    by blast
  from save_Inr [OF h(6)] have
    s: "d' = map (\<lambda>x. if oid x = oid c then s else x) d" "verified s" "otp s = Undefined"
       "otpExpires s = Undefined" "email s = email c"
    by simp_all
  have f: "findOne_email d' (Some em) = Some s"
    unfolding s(1) using h(5) s(5) by (rule findOne_email_replace)
  have "verifyEmail D w' req d' = (Inl (ApiError 400 ''Invalid or expired OTP''), d')" for w'
    using h(1-4) f by (rule verifyEmail_rejects) (simp add: s(3))
  with f s h(1) show ?thesis by auto
qed

lemma verifyOtp_rejects:
  assumes "body req ''clientId'' = Some i" "i \<noteq> []" "body req ''otp'' = Some code" "code \<noteq> []"
    and "castObjectId D i = Some j" "findById d j = Some c"
    and "otp c \<noteq> Val code \<or> date_lt (otpExpires c) (now w)"
  shows "verifyOtp D E w req d = (Inl (ApiError 400 ''Invalid or expired OTP''), d)"
  using assms by (auto simp: verifyOtp_def findById_cast_def strict_neq_iff)

lemma verifyOtp_Inr:
  assumes "verifyOtp D E w req d = (Inr r, d')"
  shows "\<exists>i code j c s. body req ''clientId'' = Some i \<and> i \<noteq> [] \<and> body req ''otp'' = Some code
           \<and> code \<noteq> [] \<and> castObjectId D i = Some j \<and> findById d j = Some c \<and> otp c = Val code
           \<and> \<not> date_lt (otpExpires c) (now w)
           \<and> save D w True c (c\<lparr>verified := True, otp := Null, otpExpires := Null\<rparr>) d
                = (Inr s, d')
           \<and> r = token_response 200
                 (jwt_sign D (IdClaims (oid s)) (ACCESS_TOKEN_SECRET E) (ACCESS_TOKEN_EXPIRY E)
                    (now w div 1000))
                 (jwt_sign D (IdClaims (oid s)) (REFRESH_TOKEN_SECRET E) (REFRESH_TOKEN_EXPIRY E)
                    (now w div 1000))
                 (JObj [(''clientId'', JOid (oid s)),
                        (''message'', JStr ''OTP verified successfully!'')]) None"
  using assms
  by (auto simp: verifyOtp_def findById_cast_def strict_neq_iff Let_def
           split: option.splits if_splits prod.splits sum.splits)

lemma verifyOtp_once:
  assumes "verifyOtp D E w req d = (Inr r, d')"
  shows "(\<exists>i j c'. body req ''clientId'' = Some i \<and> castObjectId D i = Some j
            \<and> findById d' j = Some c' \<and> verified c'
            \<and> otp c' = Null \<and> otpExpires c' = Null)
         \<and> (\<forall>w'. verifyOtp D E w' req d' = (Inl (ApiError 400 ''Invalid or expired OTP''), d'))"
proof -
  from verifyOtp_Inr [OF assms] obtain i code j c s where
    h: "body req ''clientId'' = Some i" "i \<noteq> []" "body req ''otp'' = Some code" "code \<noteq> []"
       "castObjectId D i = Some j" "findById d j = Some c"
       "save D w True c (c\<lparr>verified := True, otp := Null, otpExpires := Null\<rparr>) d
          = (Inr s, d')"
    by blast
  from findById_Some [OF h(6)] have j: "oid c = j" by simp
  from save_Inr [OF h(7)] j have
    s: "d' = map (\<lambda>x. if oid x = j then s else x) d" "verified s" "otp s = Null"
       "otpExpires s = Null" "oid s = j"
    by simp_all
  have f: "findById d' j = Some s"
    unfolding s(1) using h(6) s(5) by (rule findById_replace)
  have "verifyOtp D E w' req d' = (Inl (ApiError 400 ''Invalid or expired OTP''), d')" for w'
    using h(1-5) f by (rule verifyOtp_rejects) (simp add: s(3))
  with f s h show ?thesis by auto
qed


lemma verifyEmail_ok:
  assumes "body req ''email'' = Some em" "em \<noteq> []" "body req ''otp'' = Some code" "code \<noteq> []"
    and "findOne_email d (Some em) = Some c" "otp c = Val code"
    and "\<not> date_lt (otpExpires c) (now w)" "schema_valid c"
  shows "verifyEmail D w req d =
     (Inr (plain_response 200 (JObj [(''message'', JStr ''Email verified successfully'')]) None),
      map (\<lambda>x. if oid x = oid c
                then stamp w c (c\<lparr>verified := True, otp := Undefined, otpExpires := Undefined\<rparr>)
                else x) d)"
proof -
  have "save D w True c (c\<lparr>verified := True, otp := Undefined, otpExpires := Undefined\<rparr>) d =
      (Inr (stamp w c (c\<lparr>verified := True, otp := Undefined, otpExpires := Undefined\<rparr>)),
       map (\<lambda>x. if oid x = oid (c\<lparr>verified := True, otp := Undefined, otpExpires := Undefined\<rparr>)
                 then stamp w c (c\<lparr>verified := True, otp := Undefined, otpExpires := Undefined\<rparr>)
                 else x) d)"
    by (rule save_plain) (use assms(8) in \<open>simp_all add: schema_valid_def\<close>)
  with assms(1-7) show ?thesis
    by (simp add: verifyEmail_def strict_neq_iff)
qed

lemma verifyOtp_ok:
  assumes "body req ''clientId'' = Some i" "i \<noteq> []" "body req ''otp'' = Some code" "code \<noteq> []"
    and "castObjectId D i = Some j" "findById d j = Some c" "otp c = Val code"
    and "\<not> date_lt (otpExpires c) (now w)" "schema_valid c"
  shows "verifyOtp D E w req d =
     (Inr (token_response 200
             (jwt_sign D (IdClaims j) (ACCESS_TOKEN_SECRET E) (ACCESS_TOKEN_EXPIRY E)
                (now w div 1000))
             (jwt_sign D (IdClaims j) (REFRESH_TOKEN_SECRET E) (REFRESH_TOKEN_EXPIRY E)
                (now w div 1000))
             (JObj [(''clientId'', JOid j), (''message'', JStr ''OTP verified successfully!'')])
             None),
      map (\<lambda>x. if oid x = j
                then stamp w c (c\<lparr>verified := True, otp := Null, otpExpires := Null\<rparr>)
                else x) d)"
proof -
  from findById_Some [OF assms(6)] have j: "oid c = j" by simp
  have "save D w True c (c\<lparr>verified := True, otp := Null, otpExpires := Null\<rparr>) d =
      (Inr (stamp w c (c\<lparr>verified := True, otp := Null, otpExpires := Null\<rparr>)),
       map (\<lambda>x. if oid x = oid (c\<lparr>verified := True, otp := Null, otpExpires := Null\<rparr>)
                 then stamp w c (c\<lparr>verified := True, otp := Null, otpExpires := Null\<rparr>)
                 else x) d)"
    by (rule save_plain) (use assms(9) in \<open>simp_all add: schema_valid_def\<close>)
  with assms(1-8) j show ?thesis
    by (simp add: verifyOtp_def findById_cast_def strict_neq_iff stamp_fields)
qed

text \<open>
Claim C5. Both OTP entry points, the one keyed by email and the one keyed by id, fail
  with the invalid-or-expired error whenever the record they found holds another code than
  the one supplied, or an expiry earlier than the clock. A verification that succeeds
  leaves the record verified with both OTP paths cleared (\<^verbatim>\<open>undefined\<close> on the email
  path, \<^verbatim>\<open>null\<close> on the id path), and the same request repeated at any later time
  fails with the invalid-or-expired error.
\<close>

theorem otp_verification:
  "(\<forall>em code c. body req ''email'' = Some em \<and> em \<noteq> [] \<and> body req ''otp'' = Some code
        \<and> code \<noteq> [] \<and> findOne_email d (Some em) = Some c
        \<and> (otp c \<noteq> Val code \<or> (\<exists>t. otpExpires c = Val t \<and> t < now w)) \<longrightarrow>
      verifyEmail D w req d = (Inl (ApiError 400 ''Invalid or expired OTP''), d))
   \<and> (\<forall>r d'. verifyEmail D w req d = (Inr r, d') \<longrightarrow>
        (\<exists>c'. findOne_email d' (body req ''email'') = Some c' \<and> verified c'
            \<and> otp c' = Undefined \<and> otpExpires c' = Undefined)
        \<and> (\<forall>w'. verifyEmail D w' req d' = (Inl (ApiError 400 ''Invalid or expired OTP''), d')))
   \<and> (\<forall>i code j c. body req ''clientId'' = Some i \<and> i \<noteq> [] \<and> body req ''otp'' = Some code
        \<and> code \<noteq> [] \<and> castObjectId D i = Some j \<and> findById d j = Some c
        \<and> (otp c \<noteq> Val code \<or> (\<exists>t. otpExpires c = Val t \<and> t < now w)) \<longrightarrow>
      verifyOtp D E w req d = (Inl (ApiError 400 ''Invalid or expired OTP''), d))
   \<and> (\<forall>r d'. verifyOtp D E w req d = (Inr r, d') \<longrightarrow>
        (\<exists>i j c'. body req ''clientId'' = Some i \<and> castObjectId D i = Some j
            \<and> findById d' j = Some c' \<and> verified c' \<and> otp c' = Null \<and> otpExpires c' = Null)
        \<and> (\<forall>w'. verifyOtp D E w' req d' = (Inl (ApiError 400 ''Invalid or expired OTP''), d')))"
proof (intro conjI allI impI)
  fix em code c
  assume "body req ''email'' = Some em \<and> em \<noteq> [] \<and> body req ''otp'' = Some code
        \<and> code \<noteq> [] \<and> findOne_email d (Some em) = Some c
        \<and> (otp c \<noteq> Val code \<or> (\<exists>t. otpExpires c = Val t \<and> t < now w))"
  then show "verifyEmail D w req d = (Inl (ApiError 400 ''Invalid or expired OTP''), d)"
    by (intro verifyEmail_rejects [of req em code d c w D]) auto
next
  fix r d'
  assume "verifyEmail D w req d = (Inr r, d')"
  from verifyEmail_once [OF this]
  show "\<exists>c'. findOne_email d' (body req ''email'') = Some c' \<and> verified c'
            \<and> otp c' = Undefined \<and> otpExpires c' = Undefined"
    and "\<And>w'. verifyEmail D w' req d' = (Inl (ApiError 400 ''Invalid or expired OTP''), d')"
    by blast+
next
  fix i code j c
  assume "body req ''clientId'' = Some i \<and> i \<noteq> [] \<and> body req ''otp'' = Some code
        \<and> code \<noteq> [] \<and> castObjectId D i = Some j \<and> findById d j = Some c
        \<and> (otp c \<noteq> Val code \<or> (\<exists>t. otpExpires c = Val t \<and> t < now w))"
  then show "verifyOtp D E w req d = (Inl (ApiError 400 ''Invalid or expired OTP''), d)"
    by (intro verifyOtp_rejects [of req i code D j d c w E]) auto
next
  fix r d'
  assume "verifyOtp D E w req d = (Inr r, d')"
  from verifyOtp_once [OF this]
  show "\<exists>i j c'. body req ''clientId'' = Some i \<and> castObjectId D i = Some j
            \<and> findById d' j = Some c' \<and> verified c' \<and> otp c' = Null \<and> otpExpires c' = Null"
    and "\<And>w'. verifyOtp D E w' req d' = (Inl (ApiError 400 ''Invalid or expired OTP''), d')"
    by blast+
qed


theorem otp_verification_witness:
  "verifyEmail sample_deps (sample_world 400000) (email_otp_request ''123456'') [sample_client]
     = (Inl (ApiError 400 ''Invalid or expired OTP''), [sample_client])
   \<and> fst (verifyEmail sample_deps (sample_world 5000) (email_otp_request ''123456'') [sample_client])
     = Inr (plain_response 200 (JObj [(''message'', JStr ''Email verified successfully'')]) None)
   \<and> verifyEmail sample_deps (sample_world 6000) (email_otp_request ''123456'')
       (snd (verifyEmail sample_deps (sample_world 5000) (email_otp_request ''123456'')
               [sample_client]))
     = (Inl (ApiError 400 ''Invalid or expired OTP''),
        snd (verifyEmail sample_deps (sample_world 5000) (email_otp_request ''123456'')
               [sample_client]))
   \<and> verifyOtp sample_deps sample_env (sample_world 5000) (id_otp_request ''000000'')
       [sample_client]
     = (Inl (ApiError 400 ''Invalid or expired OTP''), [sample_client])
   \<and> (\<exists>r. fst (verifyOtp sample_deps sample_env (sample_world 5000) (id_otp_request ''123456'')
                  [sample_client]) = Inr r)
   \<and> verifyOtp sample_deps sample_env (sample_world 6000) (id_otp_request ''123456'')
       (snd (verifyOtp sample_deps sample_env (sample_world 5000) (id_otp_request ''123456'')
               [sample_client]))
     = (Inl (ApiError 400 ''Invalid or expired OTP''),
        snd (verifyOtp sample_deps sample_env (sample_world 5000) (id_otp_request ''123456'')
               [sample_client]))"
proof -
  have e: "body (email_otp_request ''123456'') ''email'' = Some ''ann@x.io''"
          "body (email_otp_request ''123456'') ''otp'' = Some ''123456''"
          "findOne_email [sample_client] (Some ''ann@x.io'') = Some sample_client"
          "otp sample_client = Val ''123456''" "otpExpires sample_client = Val 301200"
    by (simp_all add: email_otp_request_def sample_request_def findOne_email_def trim_ann
          sample_client_def)
  have i: "body (id_otp_request code) ''clientId'' = Some ''c1''"
          "body (id_otp_request code) ''otp'' = Some code"
          "castObjectId sample_deps ''c1'' = Some ''c1''"
          "findById [sample_client] ''c1'' = Some sample_client" for code
    by (simp_all add: id_otp_request_def sample_request_def findById_def sample_deps_def
          sample_client_def)
  have A: "verifyEmail sample_deps (sample_world 400000) (email_otp_request ''123456'')
             [sample_client] = (Inl (ApiError 400 ''Invalid or expired OTP''), [sample_client])"
    by (rule otp_verification [THEN conjunct1, rule_format,
              where em = "''ann@x.io''" and code = "''123456''" and c = sample_client])
       (simp add: e sample_world_def)
  have ok1: "verifyEmail sample_deps (sample_world 5000) (email_otp_request ''123456'')
               [sample_client]
     = (Inr (plain_response 200 (JObj [(''message'', JStr ''Email verified successfully'')]) None),
        map (\<lambda>x. if oid x = oid sample_client
                  then stamp (sample_world 5000) sample_client
                         (sample_client\<lparr>verified := True, otp := Undefined,
                                         otpExpires := Undefined\<rparr>)
                  else x) [sample_client])"
    by (rule verifyEmail_ok [where em = "''ann@x.io''" and code = "''123456''"])
       (simp_all add: e sample_world_def sample_client_valid)
  note B = otp_verification [THEN conjunct2, THEN conjunct1, rule_format, OF ok1, THEN conjunct2,
             rule_format, of "sample_world 6000"]
  have C: "verifyOtp sample_deps sample_env (sample_world 5000) (id_otp_request ''000000'')
             [sample_client] = (Inl (ApiError 400 ''Invalid or expired OTP''), [sample_client])"
    by (rule otp_verification [THEN conjunct2, THEN conjunct2, THEN conjunct1, rule_format,
              where i = "''c1''" and code = "''000000''" and j = "''c1''" and c = sample_client])
       (simp add: i e)
  have ok2: "verifyOtp sample_deps sample_env (sample_world 5000) (id_otp_request ''123456'')
               [sample_client]
     = (Inr (token_response 200
             (jwt_sign sample_deps (IdClaims ''c1'') (ACCESS_TOKEN_SECRET sample_env)
                (ACCESS_TOKEN_EXPIRY sample_env) (now (sample_world 5000) div 1000))
             (jwt_sign sample_deps (IdClaims ''c1'') (REFRESH_TOKEN_SECRET sample_env)
                (REFRESH_TOKEN_EXPIRY sample_env) (now (sample_world 5000) div 1000))
             (JObj [(''clientId'', JOid ''c1''), (''message'', JStr ''OTP verified successfully!'')])
             None),
        map (\<lambda>x. if oid x = ''c1''
                  then stamp (sample_world 5000) sample_client
                         (sample_client\<lparr>verified := True, otp := Null, otpExpires := Null\<rparr>)
                  else x) [sample_client])"
    by (rule verifyOtp_ok [where i = "''c1''" and code = "''123456''"])
       (simp_all add: i e sample_world_def sample_client_valid)
  note D = otp_verification [THEN conjunct2, THEN conjunct2, THEN conjunct2, rule_format, OF ok2,
             THEN conjunct2, rule_format, of "sample_world 6000"]
  show ?thesis
    using A B C D by (simp add: ok1 ok2)
qed

section \<open>Token refresh\<close>

lemma refresh_absent:
  "\<not> truthy (presented req) \<Longrightarrow>
   refreshAccessToken D E w req d = (Inl (ApiError 401 ''Unauthorized request''), d)"
  by (cases "presented req") (auto simp: refreshAccessToken_def presented_def)

lemma refresh_mismatch:
  assumes "presented req = Some tok" "tok \<noteq> []"
    and "jwt_verify D tok (REFRESH_TOKEN_SECRET E) (now w div 1000) = Some cl"
    and "payload_id cl = Some i" "findById d i = Some c" "refreshToken c \<noteq> Val tok"
  shows "refreshAccessToken D E w req d =
           (Inl (ApiError 401 ''Invalid or expired refresh token''), d)"
  using assms by (simp add: refreshAccessToken_def presented_def strict_neq_iff)

lemma refresh_ok:
  assumes "presented req = Some tok" "tok \<noteq> []"
    and "jwt_verify D tok (REFRESH_TOKEN_SECRET E) (now w div 1000) = Some cl"
    and "payload_id cl = Some i" "findById d i = Some c" "refreshToken c = Val tok" "i \<noteq> []"
  shows "refreshAccessToken D E w req d =
     (Inr (token_response 200 (generateAccessToken D E w c) (generateRefreshToken D E w c)
             (JObj [(''accessToken'', JStr (generateAccessToken D E w c)),
                    (''refreshToken'', JStr (generateRefreshToken D E w c))])
             (Some ''Token refreshed'')),
      map (\<lambda>x. if oid x = i then issued D E w c else x) d)"
proof -
  from findById_Some [OF assms(5)] have "oid c = i" by simp
  moreover have "generateAccessRefreshTokens D E w i d =
     (Inr (generateAccessToken D E w c, generateRefreshToken D E w c),
      map (\<lambda>x. if oid x = i then issued D E w c else x) d)"
    using assms(7,5) by (rule generate_ok)
  ultimately show ?thesis
    using assms(1-6) by (simp add: refreshAccessToken_def presented_def strict_neq_iff)
qed

lemma refresh_unstored:
  assumes "presented req = Some tok"
    and "findById d j = Some c" "refreshToken c \<noteq> Val tok"
    and "jwt_verify D tok (REFRESH_TOKEN_SECRET E) (now w div 1000) = None
         \<or> jwt_verify D tok (REFRESH_TOKEN_SECRET E) (now w div 1000) = Some (IdClaims j)"
  shows "refreshAccessToken D E w req d =
           (Inl (if tok = [] then ApiError 401 ''Unauthorized request''
                 else if jwt_verify D tok (REFRESH_TOKEN_SECRET E) (now w div 1000) = None
                 then Thrown ''JsonWebTokenError''
                 else ApiError 401 ''Invalid or expired refresh token''), d)"
proof (cases "tok = []")
  case True
  with assms(1) have "\<not> truthy (presented req)" by simp
  from refresh_absent [OF this] True show ?thesis by simp
next
  case False
  from assms(4) show ?thesis
  proof
    assume "jwt_verify D tok (REFRESH_TOKEN_SECRET E) (now w div 1000) = None"
    with assms(1) False show ?thesis
      by (simp add: refreshAccessToken_def presented_def)
  next
    assume v: "jwt_verify D tok (REFRESH_TOKEN_SECRET E) (now w div 1000) = Some (IdClaims j)"
    have "refreshAccessToken D E w req d =
           (Inl (ApiError 401 ''Invalid or expired refresh token''), d)"
      using assms(1) False v _ assms(2,3) by (rule refresh_mismatch) simp
    with False v show ?thesis by simp
  qed
qed

section \<open>Rotation of the refresh token\<close>

lemma sample_separates: "issue_time_separates sample_deps"
  by (auto simp: issue_time_separates_def sample_deps_def sample_sign_def
           dest: arg_cong [where f = length])

lemma sample_presented: "presented (cookie_request tok) = (if tok = [] then None else Some tok)"
  by (simp add: presented_def or_else_def cookie_request_def)

lemma sample_verify_c1:
  "jwt_verify sample_deps (''kr.Rc1.'' @ n) (REFRESH_TOKEN_SECRET sample_env) t
     = Some (IdClaims ''c1'')"
  by (simp add: sample_deps_def sample_env_def sample_verify_def)

text \<open>
  Claim C3, as the code has it. \<open>refreshAccessToken\<close> fails with 401 when no token is
  presented, and with 401 when the presented token differs from the refresh token stored
  on the decoded subject's record. When it matches, the call succeeds: a pair signed at the
  current second is returned and its refresh token is stored on the record. The token
  stored before no longer equals the stored one provided it was signed in another second
  (the signature is a function of the subject, the secret, the expiry option and the issue
  second).
\<close>

theorem refresh_rotation:
  "(\<not> truthy (presented req) \<longrightarrow>
      refreshAccessToken D E w req d = (Inl (ApiError 401 ''Unauthorized request''), d))
   \<and> (\<forall>tok cl i c. presented req = Some tok \<and> tok \<noteq> []
         \<and> jwt_verify D tok (REFRESH_TOKEN_SECRET E) (now w div 1000) = Some cl
         \<and> payload_id cl = Some i \<and> findById d i = Some c \<and> refreshToken c \<noteq> Val tok \<longrightarrow>
       refreshAccessToken D E w req d
         = (Inl (ApiError 401 ''Invalid or expired refresh token''), d))
   \<and> (\<forall>tok cl i c. presented req = Some tok \<and> tok \<noteq> []
         \<and> jwt_verify D tok (REFRESH_TOKEN_SECRET E) (now w div 1000) = Some cl
         \<and> payload_id cl = Some i \<and> i \<noteq> [] \<and> findById d i = Some c
         \<and> refreshToken c = Val tok \<longrightarrow>
       (\<exists>r d' c'. refreshAccessToken D E w req d = (Inr r, d')
          \<and> set_cookies r = [(''accessToken'', generateAccessToken D E w c),
                              (''refreshToken'', generateRefreshToken D E w c)]
          \<and> findById d' i = Some c'
          \<and> refreshToken c' = Val (generateRefreshToken D E w c)
          \<and> (issue_time_separates D
               \<and> (\<exists>t0. tok = jwt_sign D (IdClaims i) (REFRESH_TOKEN_SECRET E)
                                 (REFRESH_TOKEN_EXPIRY E) t0 \<and> t0 \<noteq> now w div 1000)
               \<longrightarrow> refreshToken c' \<noteq> Val tok)))"
proof (intro conjI allI impI)
  assume "\<not> truthy (presented req)"
  then show "refreshAccessToken D E w req d = (Inl (ApiError 401 ''Unauthorized request''), d)"
    by (rule refresh_absent)
next
  fix tok cl i c
  assume "presented req = Some tok \<and> tok \<noteq> []
         \<and> jwt_verify D tok (REFRESH_TOKEN_SECRET E) (now w div 1000) = Some cl
         \<and> payload_id cl = Some i \<and> findById d i = Some c \<and> refreshToken c \<noteq> Val tok"
  then show "refreshAccessToken D E w req d
         = (Inl (ApiError 401 ''Invalid or expired refresh token''), d)"
    using refresh_mismatch [of req tok D E w cl i d c] by blast
next
  fix tok cl i c
  assume h: "presented req = Some tok \<and> tok \<noteq> []
         \<and> jwt_verify D tok (REFRESH_TOKEN_SECRET E) (now w div 1000) = Some cl
         \<and> payload_id cl = Some i \<and> i \<noteq> [] \<and> findById d i = Some c
         \<and> refreshToken c = Val tok"
  then have ok: "refreshAccessToken D E w req d =
     (Inr (token_response 200 (generateAccessToken D E w c) (generateRefreshToken D E w c)
             (JObj [(''accessToken'', JStr (generateAccessToken D E w c)),
                    (''refreshToken'', JStr (generateRefreshToken D E w c))])
             (Some ''Token refreshed'')),
      map (\<lambda>x. if oid x = i then issued D E w c else x) d)"
    using refresh_ok [of req tok D E w cl i d c] by blast
  from h have c: "findById d i = Some c" by simp
  from findById_Some [OF c] have i: "oid c = i" by simp
  have f: "findById (map (\<lambda>x. if oid x = i then issued D E w c else x) d) i
             = Some (issued D E w c)"
    using c by (rule findById_replace) (simp add: issued_fields i)
  have fresh: "refreshToken (issued D E w c) \<noteq> Val tok"
    if "issue_time_separates D
        \<and> (\<exists>t0. tok = jwt_sign D (IdClaims i) (REFRESH_TOKEN_SECRET E)
                         (REFRESH_TOKEN_EXPIRY E) t0 \<and> t0 \<noteq> now w div 1000)"
    using that by (auto simp: issued_fields generateRefreshToken_def i issue_time_separates_def)
  show "\<exists>r d' c'. refreshAccessToken D E w req d = (Inr r, d')
          \<and> set_cookies r = [(''accessToken'', generateAccessToken D E w c),
                              (''refreshToken'', generateRefreshToken D E w c)]
          \<and> findById d' i = Some c'
          \<and> refreshToken c' = Val (generateRefreshToken D E w c)
          \<and> (issue_time_separates D
               \<and> (\<exists>t0. tok = jwt_sign D (IdClaims i) (REFRESH_TOKEN_SECRET E)
                                 (REFRESH_TOKEN_EXPIRY E) t0 \<and> t0 \<noteq> now w div 1000)
               \<longrightarrow> refreshToken c' \<noteq> Val tok)"
    using ok f fresh by (auto simp: token_response_def issued_fields)
qed

theorem refresh_rotation_witness:
  "refreshAccessToken sample_deps sample_env (sample_world 5000) (sample_request [])
       [sample_client]
     = (Inl (ApiError 401 ''Unauthorized request''), [sample_client])
   \<and> refreshAccessToken sample_deps sample_env (sample_world 5000)
       (cookie_request ''kr.Rc1.ii'') [sample_client]
     = (Inl (ApiError 401 ''Invalid or expired refresh token''), [sample_client])
   \<and> (\<exists>r d' c'. refreshAccessToken sample_deps sample_env (sample_world 5000)
                    (cookie_request ''kr.Rc1.i'') [sample_client] = (Inr r, d')
        \<and> set_cookies r =
            [(''accessToken'',
              generateAccessToken sample_deps sample_env (sample_world 5000) sample_client),
             (''refreshToken'',
              generateRefreshToken sample_deps sample_env (sample_world 5000) sample_client)]
        \<and> findById d' ''c1'' = Some c'
        \<and> refreshToken c'
            = Val (generateRefreshToken sample_deps sample_env (sample_world 5000) sample_client)
        \<and> refreshToken c' \<noteq> Val ''kr.Rc1.i'')"
proof -
  have A: "refreshAccessToken sample_deps sample_env (sample_world 5000) (sample_request [])
       [sample_client] = (Inl (ApiError 401 ''Unauthorized request''), [sample_client])"
    by (rule refresh_rotation [THEN conjunct1, rule_format])
       (simp add: presented_def or_else_def sample_request_def)
  have B: "refreshAccessToken sample_deps sample_env (sample_world 5000)
       (cookie_request ''kr.Rc1.ii'') [sample_client]
     = (Inl (ApiError 401 ''Invalid or expired refresh token''), [sample_client])"
    by (rule refresh_rotation [THEN conjunct2, THEN conjunct1, rule_format,
          where tok = "''kr.Rc1.ii''" and cl = "IdClaims ''c1''" and i = "''c1''"
            and c = sample_client])
       (simp add: sample_presented sample_verify_c1 [of "''ii''", simplified] findById_def
          sample_client_def)
  have t: "''kr.Rc1.i'' = jwt_sign sample_deps (IdClaims ''c1'') (REFRESH_TOKEN_SECRET sample_env)
                            (REFRESH_TOKEN_EXPIRY sample_env) 1"
    by (simp add: sample_deps_def sample_env_def sample_sign_def)
  have h: "presented (cookie_request ''kr.Rc1.i'') = Some ''kr.Rc1.i'' \<and> ''kr.Rc1.i'' \<noteq> []
         \<and> jwt_verify sample_deps ''kr.Rc1.i'' (REFRESH_TOKEN_SECRET sample_env)
              (now (sample_world 5000) div 1000) = Some (IdClaims ''c1'')
         \<and> payload_id (IdClaims ''c1'') = Some ''c1'' \<and> ''c1'' \<noteq> []
         \<and> findById [sample_client] ''c1'' = Some sample_client
         \<and> refreshToken sample_client = Val ''kr.Rc1.i''"
    by (simp add: sample_presented sample_verify_c1 [of "''i''", simplified] findById_def
          sample_client_def)
  have s: "issue_time_separates sample_deps
           \<and> (\<exists>t0. ''kr.Rc1.i'' = jwt_sign sample_deps (IdClaims ''c1'')
                       (REFRESH_TOKEN_SECRET sample_env) (REFRESH_TOKEN_EXPIRY sample_env) t0
                  \<and> t0 \<noteq> now (sample_world 5000) div 1000)"
    using t by (auto simp: sample_separates sample_world_def intro!: exI [of _ 1])
  from refresh_rotation [THEN conjunct2, THEN conjunct2, rule_format, OF h] s
  have C: "\<exists>r d' c'. refreshAccessToken sample_deps sample_env (sample_world 5000)
                    (cookie_request ''kr.Rc1.i'') [sample_client] = (Inr r, d')
        \<and> set_cookies r =
            [(''accessToken'',
              generateAccessToken sample_deps sample_env (sample_world 5000) sample_client),
             (''refreshToken'',
              generateRefreshToken sample_deps sample_env (sample_world 5000) sample_client)]
        \<and> findById d' ''c1'' = Some c'
        \<and> refreshToken c'
            = Val (generateRefreshToken sample_deps sample_env (sample_world 5000) sample_client)
        \<and> refreshToken c' \<noteq> Val ''kr.Rc1.i''"
    by blast
  show ?thesis
    by (rule conjI [OF A conjI [OF B C]])
qed

text \<open>
  The claim as stated, that after a successful refresh the previously stored token never
  equals the newly stored one, fails when the refresh falls into the second in which the
  stored token was issued: registration at 1200 ms stores a token issued in second 1, and
  a refresh at 1900 ms signs the same payload in the same second, so the store is unchanged.
\<close>

theorem refresh_same_second_counterexample:
  "snd (registerClient sample_deps sample_env (sample_world 1200) register_request [])
     = [sample_client]
   \<and> refreshToken sample_client = Val ''kr.Rc1.i''
   \<and> refreshAccessToken sample_deps sample_env (sample_world 1900)
       (cookie_request ''kr.Rc1.i'') [sample_client]
     = (Inr (token_response 200 ''ka.Ac1.i'' ''kr.Rc1.i''
               (JObj [(''accessToken'', JStr ''ka.Ac1.i''), (''refreshToken'', JStr ''kr.Rc1.i'')])
               (Some ''Token refreshed'')),
        [sample_client])"
proof -
  have "refreshAccessToken sample_deps sample_env (sample_world 1900)
       (cookie_request ''kr.Rc1.i'') [sample_client]
     = (Inr (token_response 200
               (generateAccessToken sample_deps sample_env (sample_world 1900) sample_client)
               (generateRefreshToken sample_deps sample_env (sample_world 1900) sample_client)
               (JObj [(''accessToken'',
                       JStr (generateAccessToken sample_deps sample_env (sample_world 1900)
                               sample_client)),
                      (''refreshToken'',
                       JStr (generateRefreshToken sample_deps sample_env (sample_world 1900)
                               sample_client))])
               (Some ''Token refreshed'')),
        map (\<lambda>x. if oid x = ''c1''
                  then issued sample_deps sample_env (sample_world 1900) sample_client else x)
          [sample_client])"
    by (rule refresh_ok [where tok = "''kr.Rc1.i''" and cl = "IdClaims ''c1''"])
       (simp_all add: sample_presented sample_verify_c1 [of "''i''", simplified] findById_def
          sample_client_def)
  moreover have "generateRefreshToken sample_deps sample_env (sample_world 1900) sample_client
                   = ''kr.Rc1.i''"
    by (simp add: generateRefreshToken_def sample_defs)
  moreover have "generateAccessToken sample_deps sample_env (sample_world 1900) sample_client
                   = ''ka.Ac1.i''"
    by (simp add: generateAccessToken_def sample_defs)
  moreover have "issued sample_deps sample_env (sample_world 1900) sample_client = sample_client"
    by (simp add: issued_def stamp_def generateRefreshToken_def sample_defs)
  ultimately show ?thesis
    by (simp add: register_eval) (simp add: sample_client_def)
qed

section \<open>The token pair of the id-keyed verification\<close>

lemma replicate_5: "replicate 5 x = [x, x, x, x, x]"
  by (simp add: numeral_eq_Suc)

lemma verifyOtp_sample:
  "verifyOtp sample_deps sample_env (sample_world 5000) (id_otp_request ''123456'')
       [sample_client]
     = (Inr (token_response 200 ''ka.Rc1.iiiii'' ''kr.Rc1.iiiii''
               (JObj [(''clientId'', JOid ''c1''),
                      (''message'', JStr ''OTP verified successfully!'')]) None),
        [sample_client\<lparr>verified := True, otp := Null, otpExpires := Null, updatedAt := 5000\<rparr>])"
proof -
  have "verifyOtp sample_deps sample_env (sample_world 5000) (id_otp_request ''123456'')
          [sample_client]
     = (Inr (token_response 200
             (jwt_sign sample_deps (IdClaims ''c1'') (ACCESS_TOKEN_SECRET sample_env)
                (ACCESS_TOKEN_EXPIRY sample_env) (now (sample_world 5000) div 1000))
             (jwt_sign sample_deps (IdClaims ''c1'') (REFRESH_TOKEN_SECRET sample_env)
                (REFRESH_TOKEN_EXPIRY sample_env) (now (sample_world 5000) div 1000))
             (JObj [(''clientId'', JOid ''c1''), (''message'', JStr ''OTP verified successfully!'')])
             None),
        map (\<lambda>x. if oid x = ''c1''
                  then stamp (sample_world 5000) sample_client
                         (sample_client\<lparr>verified := True, otp := Null, otpExpires := Null\<rparr>)
                  else x) [sample_client])"
    by (rule verifyOtp_ok [where i = "''c1''" and code = "''123456''"])
       (simp_all add: sample_defs findById_def sample_client_valid [unfolded sample_client_def])
  moreover have "stamp (sample_world 5000) sample_client
                   (sample_client\<lparr>verified := True, otp := Null, otpExpires := Null\<rparr>)
                 = sample_client\<lparr>verified := True, otp := Null, otpExpires := Null,
                                  updatedAt := 5000\<rparr>"
    by (simp add: stamp_def sample_world_def sample_client_def)
  moreover have "jwt_sign sample_deps (IdClaims ''c1'') (ACCESS_TOKEN_SECRET sample_env)
                (ACCESS_TOKEN_EXPIRY sample_env) (now (sample_world 5000) div 1000)
                 = ''ka.Rc1.iiiii''"
    by (simp add: sample_defs replicate_5)
  moreover have "jwt_sign sample_deps (IdClaims ''c1'') (REFRESH_TOKEN_SECRET sample_env)
                (REFRESH_TOKEN_EXPIRY sample_env) (now (sample_world 5000) div 1000)
                 = ''kr.Rc1.iiiii''"
    by (simp add: sample_defs replicate_5)
  ultimately show ?thesis
    by (simp add: sample_client_def)
qed

text \<open>
  Claim C8, as the code has it. A successful \<open>verifyOtp\<close> leaves the \<open>refreshToken\<close>
  stored on the record as it was, while it sends a refresh token signed for that record as a
  cookie. A later \<open>refreshAccessToken\<close> that presents this cookie fails whenever the cookie
  differs from the stored token: with 401 as long as the library accepts the token (it
  decodes to the id of the record), and with the error of the library, which the handler
  does not catch, once the library rejects the token as expired.
\<close>

theorem verifyOtp_token_unstored:
  assumes "verifyOtp D E w req d = (Inr r, d')"
    and "body req ''clientId'' = Some i" "castObjectId D i = Some j"
    and "rt = jwt_sign D (IdClaims j) (REFRESH_TOKEN_SECRET E) (REFRESH_TOKEN_EXPIRY E)
                (now w div 1000)"
  shows "\<exists>c c'. findById d j = Some c \<and> findById d' j = Some c'
           \<and> refreshToken c' = refreshToken c
           \<and> set_cookies r =
               [(''accessToken'', jwt_sign D (IdClaims j) (ACCESS_TOKEN_SECRET E)
                                    (ACCESS_TOKEN_EXPIRY E) (now w div 1000)),
                (''refreshToken'', rt)]
           \<and> (\<forall>w' req'. presented req' = Some rt \<and> refreshToken c' \<noteq> Val rt
                  \<and> (jwt_verify D rt (REFRESH_TOKEN_SECRET E) (now w' div 1000) = None
                       \<or> jwt_verify D rt (REFRESH_TOKEN_SECRET E) (now w' div 1000)
                            = Some (IdClaims j)) \<longrightarrow>
                refreshAccessToken D E w' req' d' =
                  (Inl (if rt = [] then ApiError 401 ''Unauthorized request''
                        else if jwt_verify D rt (REFRESH_TOKEN_SECRET E) (now w' div 1000) = None
                        then Thrown ''JsonWebTokenError''
                        else ApiError 401 ''Invalid or expired refresh token''), d'))"
proof -
  from verifyOtp_Inr [OF assms(1)] assms(2,3) obtain c s where
    h: "findById d j = Some c"
       "save D w True c (c\<lparr>verified := True, otp := Null, otpExpires := Null\<rparr>) d = (Inr s, d')"
       "r = token_response 200
              (jwt_sign D (IdClaims (oid s)) (ACCESS_TOKEN_SECRET E) (ACCESS_TOKEN_EXPIRY E)
                 (now w div 1000))
              (jwt_sign D (IdClaims (oid s)) (REFRESH_TOKEN_SECRET E) (REFRESH_TOKEN_EXPIRY E)
                 (now w div 1000))
              (JObj [(''clientId'', JOid (oid s)),
                     (''message'', JStr ''OTP verified successfully!'')]) None"
    by auto
  from findById_Some [OF h(1)] have j: "oid c = j" by simp
  from save_Inr [OF h(2)] j have
    s: "d' = map (\<lambda>x. if oid x = j then s else x) d" "oid s = j"
       "refreshToken s = refreshToken c"
    by simp_all
  have f: "findById d' j = Some s"
    unfolding s(1) using h(1) s(2) by (rule findById_replace)
  have "refreshAccessToken D E w' req' d' =
          (Inl (if rt = [] then ApiError 401 ''Unauthorized request''
                else if jwt_verify D rt (REFRESH_TOKEN_SECRET E) (now w' div 1000) = None
                then Thrown ''JsonWebTokenError''
                else ApiError 401 ''Invalid or expired refresh token''), d')"
    if "presented req' = Some rt \<and> refreshToken s \<noteq> Val rt
        \<and> (jwt_verify D rt (REFRESH_TOKEN_SECRET E) (now w' div 1000) = None
             \<or> jwt_verify D rt (REFRESH_TOKEN_SECRET E) (now w' div 1000) = Some (IdClaims j))"
    for w' req'
    using that refresh_unstored [of req' rt d' j s D E w'] f by blast
  with h(1) f s(2,3) h(3) assms(4) show ?thesis
    by (auto simp: token_response_def)
qed

lemma register_expiring:
  "snd (registerClient expiring_deps sample_env (sample_world 1200) register_request [])
     = [sample_client]"
  by (simp add: registerClient_def expiring_deps_def sample_defs blank_def trim_def is_space_def
        findOne_email_or_phone_def otp_sample create_def schema_valid_def
        phone_ok_def digit_of_def is_digit_def parseInt_def parse_unsigned_def
        generateAccessRefreshTokens_def findById_def save_def generateRefreshToken_def
        generateAccessToken_def Let_def otp_mail_def)

lemma verifyOtp_expiring:
  "verifyOtp expiring_deps sample_env (sample_world 5000) (id_otp_request ''123456'')
       [sample_client]
     = (Inr (token_response 200 ''ka.Rc1.iiiii'' ''kr.Rc1.iiiii''
               (JObj [(''clientId'', JOid ''c1''),
                      (''message'', JStr ''OTP verified successfully!'')]) None),
        [sample_client\<lparr>verified := True, otp := Null, otpExpires := Null, updatedAt := 5000\<rparr>])"
proof -
  have "verifyOtp expiring_deps sample_env (sample_world 5000) (id_otp_request ''123456'')
          [sample_client]
     = (Inr (token_response 200
             (jwt_sign expiring_deps (IdClaims ''c1'') (ACCESS_TOKEN_SECRET sample_env)
                (ACCESS_TOKEN_EXPIRY sample_env) (now (sample_world 5000) div 1000))
             (jwt_sign expiring_deps (IdClaims ''c1'') (REFRESH_TOKEN_SECRET sample_env)
                (REFRESH_TOKEN_EXPIRY sample_env) (now (sample_world 5000) div 1000))
             (JObj [(''clientId'', JOid ''c1''), (''message'', JStr ''OTP verified successfully!'')])
             None),
        map (\<lambda>x. if oid x = ''c1''
                  then stamp (sample_world 5000) sample_client
                         (sample_client\<lparr>verified := True, otp := Null, otpExpires := Null\<rparr>)
                  else x) [sample_client])"
    by (rule verifyOtp_ok [where i = "''c1''" and code = "''123456''"])
       (simp_all add: expiring_deps_def sample_defs findById_def
          sample_client_valid [unfolded sample_client_def])
  moreover have "stamp (sample_world 5000) sample_client
                   (sample_client\<lparr>verified := True, otp := Null, otpExpires := Null\<rparr>)
                 = sample_client\<lparr>verified := True, otp := Null, otpExpires := Null,
                                  updatedAt := 5000\<rparr>"
    by (simp add: stamp_def sample_world_def sample_client_def)
  moreover have "jwt_sign expiring_deps (IdClaims ''c1'') (ACCESS_TOKEN_SECRET sample_env)
                (ACCESS_TOKEN_EXPIRY sample_env) (now (sample_world 5000) div 1000)
                 = ''ka.Rc1.iiiii''"
    by (simp add: expiring_deps_def sample_defs replicate_5)
  moreover have "jwt_sign expiring_deps (IdClaims ''c1'') (REFRESH_TOKEN_SECRET sample_env)
                (REFRESH_TOKEN_EXPIRY sample_env) (now (sample_world 5000) div 1000)
                 = ''kr.Rc1.iiiii''"
    by (simp add: expiring_deps_def sample_defs replicate_5)
  ultimately show ?thesis
    by (simp add: sample_client_def)
qed

lemma expiring_verify_c1:
  "jwt_verify expiring_deps ''kr.Rc1.iiiii'' (REFRESH_TOKEN_SECRET sample_env) t
     = (if 604805 \<le> t then None else Some (IdClaims ''c1''))"
  by (simp add: expiring_deps_def expiring_verify_def sample_deps_def sample_env_def
        sample_verify_def)

theorem verifyOtp_token_unstored_witness:
  "\<exists>c c'. findById [sample_client] ''c1'' = Some c
      \<and> findById [sample_client\<lparr>verified := True, otp := Null, otpExpires := Null,
                                   updatedAt := 5000\<rparr>] ''c1'' = Some c'
      \<and> refreshToken c' = refreshToken c
      \<and> refreshAccessToken expiring_deps sample_env (sample_world 6000)
            (cookie_request ''kr.Rc1.iiiii'')
            [sample_client\<lparr>verified := True, otp := Null, otpExpires := Null,
                            updatedAt := 5000\<rparr>]
          = (Inl (ApiError 401 ''Invalid or expired refresh token''),
             [sample_client\<lparr>verified := True, otp := Null, otpExpires := Null,
                             updatedAt := 5000\<rparr>])
      \<and> refreshAccessToken expiring_deps sample_env (sample_world 700000000)
            (cookie_request ''kr.Rc1.iiiii'')
            [sample_client\<lparr>verified := True, otp := Null, otpExpires := Null,
                            updatedAt := 5000\<rparr>]
          = (Inl (Thrown ''JsonWebTokenError''),
             [sample_client\<lparr>verified := True, otp := Null, otpExpires := Null,
                             updatedAt := 5000\<rparr>])"
proof -
  have rt: "''kr.Rc1.iiiii'' = jwt_sign expiring_deps (IdClaims ''c1'')
              (REFRESH_TOKEN_SECRET sample_env) (REFRESH_TOKEN_EXPIRY sample_env)
              (now (sample_world 5000) div 1000)"
    by (simp add: expiring_deps_def sample_defs replicate_5)
  have b: "body (id_otp_request ''123456'') ''clientId'' = Some ''c1''"
          "castObjectId expiring_deps ''c1'' = Some ''c1''"
    by (simp_all add: expiring_deps_def sample_defs)
  have v: "verifyOtp expiring_deps sample_env (sample_world 5000) (id_otp_request ''123456'')
             [sample_client]
           = (Inr (token_response 200 ''ka.Rc1.iiiii'' ''kr.Rc1.iiiii''
               (JObj [(''clientId'', JOid ''c1''),
                      (''message'', JStr ''OTP verified successfully!'')]) None),
              [sample_client\<lparr>verified := True, otp := Null, otpExpires := Null,
                              updatedAt := 5000\<rparr>])"
    by (rule verifyOtp_expiring)
  from verifyOtp_token_unstored [OF v b rt] obtain c c' where
    h: "findById [sample_client] ''c1'' = Some c"
       "findById [sample_client\<lparr>verified := True, otp := Null, otpExpires := Null,
                                   updatedAt := 5000\<rparr>] ''c1'' = Some c'"
       "refreshToken c' = refreshToken c"
       "\<And>w' req'. presented req' = Some ''kr.Rc1.iiiii'' \<and> refreshToken c' \<noteq> Val ''kr.Rc1.iiiii''
            \<and> (jwt_verify expiring_deps ''kr.Rc1.iiiii'' (REFRESH_TOKEN_SECRET sample_env)
                   (now w' div 1000) = None
                 \<or> jwt_verify expiring_deps ''kr.Rc1.iiiii'' (REFRESH_TOKEN_SECRET sample_env)
                      (now w' div 1000) = Some (IdClaims ''c1'')) \<Longrightarrow>
          refreshAccessToken expiring_deps sample_env w' req'
                  [sample_client\<lparr>verified := True, otp := Null, otpExpires := Null,
                                  updatedAt := 5000\<rparr>]
            = (Inl (if ''kr.Rc1.iiiii'' = [] then ApiError 401 ''Unauthorized request''
                    else if jwt_verify expiring_deps ''kr.Rc1.iiiii''
                              (REFRESH_TOKEN_SECRET sample_env) (now w' div 1000) = None
                    then Thrown ''JsonWebTokenError''
                    else ApiError 401 ''Invalid or expired refresh token''),
               [sample_client\<lparr>verified := True, otp := Null, otpExpires := Null,
                               updatedAt := 5000\<rparr>])"
    by blast
  from h(2) have c': "refreshToken c' = Val ''kr.Rc1.i''"
    by (auto simp: findById_def sample_client_def)
  have A: "refreshAccessToken expiring_deps sample_env (sample_world 6000)
            (cookie_request ''kr.Rc1.iiiii'')
            [sample_client\<lparr>verified := True, otp := Null, otpExpires := Null,
                            updatedAt := 5000\<rparr>]
          = (Inl (ApiError 401 ''Invalid or expired refresh token''),
             [sample_client\<lparr>verified := True, otp := Null, otpExpires := Null,
                             updatedAt := 5000\<rparr>])"
    using h(4) [of "cookie_request ''kr.Rc1.iiiii''" "sample_world 6000"]
    by (simp add: sample_presented c' expiring_verify_c1 sample_world_def)
  have B: "refreshAccessToken expiring_deps sample_env (sample_world 700000000)
            (cookie_request ''kr.Rc1.iiiii'')
            [sample_client\<lparr>verified := True, otp := Null, otpExpires := Null,
                            updatedAt := 5000\<rparr>]
          = (Inl (Thrown ''JsonWebTokenError''),
             [sample_client\<lparr>verified := True, otp := Null, otpExpires := Null,
                             updatedAt := 5000\<rparr>])"
    using h(4) [of "cookie_request ''kr.Rc1.iiiii''" "sample_world 700000000"]
    by (simp add: sample_presented c' expiring_verify_c1 sample_world_def)
  from h(1-3) A B show ?thesis by blast
qed

text \<open>
  The claim as stated, that every such call fails with 401, fails once the cookie has
  expired. The client registers at 1200 ms and verifies by id at 5000 ms; the cookie of second
  5 differs from the stored token of second 1. Presented at 700000000 ms, more than seven days
  later, it is rejected by the library and the call ends in the error the library throws.
\<close>

theorem verifyOtp_cookie_expired_counterexample:
  "snd (registerClient expiring_deps sample_env (sample_world 1200) register_request [])
     = [sample_client]
   \<and> verifyOtp expiring_deps sample_env (sample_world 5000) (id_otp_request ''123456'')
       [sample_client]
     = (Inr (token_response 200 ''ka.Rc1.iiiii'' ''kr.Rc1.iiiii''
               (JObj [(''clientId'', JOid ''c1''),
                      (''message'', JStr ''OTP verified successfully!'')]) None),
        [sample_client\<lparr>verified := True, otp := Null, otpExpires := Null, updatedAt := 5000\<rparr>])
   \<and> refreshToken (sample_client\<lparr>verified := True, otp := Null, otpExpires := Null,
                                  updatedAt := 5000\<rparr>) = Val ''kr.Rc1.i''
   \<and> refreshAccessToken expiring_deps sample_env (sample_world 700000000)
       (cookie_request ''kr.Rc1.iiiii'')
       [sample_client\<lparr>verified := True, otp := Null, otpExpires := Null, updatedAt := 5000\<rparr>]
     = (Inl (Thrown ''JsonWebTokenError''),
        [sample_client\<lparr>verified := True, otp := Null, otpExpires := Null, updatedAt := 5000\<rparr>])"
proof -
  have A: "snd (registerClient expiring_deps sample_env (sample_world 1200) register_request [])
             = [sample_client]"
    by (rule register_expiring)
  have B: "verifyOtp expiring_deps sample_env (sample_world 5000) (id_otp_request ''123456'')
             [sample_client]
           = (Inr (token_response 200 ''ka.Rc1.iiiii'' ''kr.Rc1.iiiii''
               (JObj [(''clientId'', JOid ''c1''),
                      (''message'', JStr ''OTP verified successfully!'')]) None),
              [sample_client\<lparr>verified := True, otp := Null, otpExpires := Null,
                              updatedAt := 5000\<rparr>])"
    by (rule verifyOtp_expiring)
  have C: "refreshToken (sample_client\<lparr>verified := True, otp := Null, otpExpires := Null,
                                  updatedAt := 5000\<rparr>) = Val ''kr.Rc1.i''"
    by (simp add: sample_client_def)
  have D: "refreshAccessToken expiring_deps sample_env (sample_world 700000000)
       (cookie_request ''kr.Rc1.iiiii'')
       [sample_client\<lparr>verified := True, otp := Null, otpExpires := Null, updatedAt := 5000\<rparr>]
     = (Inl (Thrown ''JsonWebTokenError''),
        [sample_client\<lparr>verified := True, otp := Null, otpExpires := Null, updatedAt := 5000\<rparr>])"
    using expiring_verify_c1 [of "now (sample_world 700000000) div 1000"]
    by (simp add: refreshAccessToken_def cookie_request_def or_else_def sample_world_def)
  show ?thesis
    by (rule conjI [OF A conjI [OF B conjI [OF C D]]])
qed

lemma generate_persists:
  assumes "generateAccessRefreshTokens D E w i d = (Inr (a, t), d')"
  shows "\<exists>c'. findById d' i = Some c' \<and> refreshToken c' = Val t"
proof -
  from generate_cases [OF assms] obtain c where
    c: "findById d i = Some c" "t = generateRefreshToken D E w c"
       "d' = map (\<lambda>x. if oid x = i then issued D E w c else x) d"
    by auto
  from findById_Some [OF c(1)] have "oid (issued D E w c) = i"
    by (simp add: issued_fields)
  with c(1) have "findById d' i = Some (issued D E w c)"
    unfolding c(3) by (rule findById_replace)
  with c(2) show ?thesis by (simp add: issued_fields)
qed

text \<open>
  Claim C1 asks that every operation that issues a refresh token stores it on the record.
  Registration, login and refresh issue theirs through \<open>generateAccessRefreshTokens\<close>,
  which does (\<open>generate_persists\<close>). The id-keyed OTP verification signs its own pair and
  does not: for the client registered at 1200 ms and verified at 5000 ms it returns the
  refresh cookie \<open>kr.Rc1.iiiii\<close> while the record still holds \<open>kr.Rc1.i\<close>.
\<close>

theorem verifyOtp_returns_unstored_token:
  "fst (verifyOtp sample_deps sample_env (sample_world 5000) (id_otp_request ''123456'')
          [sample_client])
     = Inr (token_response 200 ''ka.Rc1.iiiii'' ''kr.Rc1.iiiii''
              (JObj [(''clientId'', JOid ''c1''),
                     (''message'', JStr ''OTP verified successfully!'')]) None)
   \<and> map refreshToken
         (snd (verifyOtp sample_deps sample_env (sample_world 5000) (id_otp_request ''123456'')
                 [sample_client]))
     = [Val ''kr.Rc1.i'']"
  by (simp add: verifyOtp_sample) (simp add: sample_client_def)

section \<open>Registration\<close>

lemma map_of_opt_entry:
  "map_of (opt_entry k f v) k'
     = (if k' = k then (case v of Undefined \<Rightarrow> None | Null \<Rightarrow> Some JNull | Val x \<Rightarrow> Some (f x))
        else None)"
  by (cases v) auto

lemma doc_lookup:
  "map_of (doc_of c) ''password'' = Some (JStr (password c))"
  "map_of (doc_of c) ''otp''
     = (case otp c of Undefined \<Rightarrow> None | Null \<Rightarrow> Some JNull | Val v \<Rightarrow> Some (JStr v))"
  "map_of (doc_of c) ''otpExpires''
     = (case otpExpires c of Undefined \<Rightarrow> None | Null \<Rightarrow> Some JNull | Val v \<Rightarrow> Some (JDate v))"
  "map_of (doc_of c) ''verificationToken''
     = (case verificationToken c of Undefined \<Rightarrow> None | Null \<Rightarrow> Some JNull
        | Val v \<Rightarrow> Some (JStr v))"
  "map_of (doc_of c) ''refreshToken''
     = (case refreshToken c of Undefined \<Rightarrow> None | Null \<Rightarrow> Some JNull
        | Val v \<Rightarrow> Some (JStr v))"
  by (simp_all add: doc_of_def map_of_opt_entry map_add_def split: field.splits)


lemma create_Inr:
  assumes "create D w x d = (Inr c, d')"
  shows "\<exists>a. castNumber D (in_age x) = Some a \<and> d' = d @ [c] \<and> findById d (oid c) = None
     \<and> c = \<lparr>oid = new_oid w, name = trim (in_name x), email = trim (in_email x),
             age = a, gender = in_gender x,
             password = bcrypt_hash D (in_password x) (salt_hook w),
             phone = trim (in_phone x), avatar = in_avatar x, verified = False,
             refreshToken = Null, verificationToken = Val (in_verificationToken x),
             tokenVersion = 0, otp = Val (in_otp x), otpExpires = Val (in_otpExpires x),
             createdAt = now w, updatedAt = now w, versionKey = 0\<rparr>"
proof (cases "castNumber D (in_age x)")
  case None
  with assms show ?thesis by (simp add: create_def)
next
  case (Some a)
  with assms show ?thesis
    by (auto simp: create_def Let_def findById_def find_None_iff list_ex_iff split: if_splits)
qed

lemma findById_append_new:
  "findById d (oid c) = None \<Longrightarrow> findById (d @ [c]) (oid c) = Some c"
  by (induction d) (auto simp: findById_def split: if_splits)

lemma register_Inr:
  assumes "registerClient D E w req d = (Inr r, d')"
  shows "\<exists>nm em ph pw gd a av.
           body req ''name'' = Some nm \<and> body req ''email'' = Some em
           \<and> body req ''phone'' = Some ph \<and> body req ''password'' = Some pw
           \<and> body req ''gender'' = Some gd
           \<and> r = token_response 201
                    (generateAccessToken D E w (created D E w nm em ph pw a (gd, av)))
                    (generateRefreshToken D E w (created D E w nm em ph pw a (gd, av)))
                    (JObj (doc_of (created D E w nm em ph pw a (gd, av))))
                    (Some ''Client registered successfully!'')
           \<and> d' = map (\<lambda>x. if oid x = new_oid w
                              then issued D E w (created D E w nm em ph pw a (gd, av)) else x)
                     (d @ [created D E w nm em ph pw a (gd, av)])
           \<and> findById d (new_oid w) = None \<and> new_oid w \<noteq> []"
proof -
  from assms obtain nm em ph pw ag gd where
    b: "body req ''name'' = Some nm" "body req ''email'' = Some em"
       "body req ''phone'' = Some ph" "body req ''password'' = Some pw"
       "body req ''age'' = Some ag" "body req ''gender'' = Some gd"
    by (auto simp: registerClient_def split: option.splits)
  from assms b obtain av code expires vt c d1 where
    h: "create D w \<lparr>in_name = nm, in_email = em, in_phone = ph, in_password = pw,
                    in_age = ag, in_gender = gd, in_avatar = av,
                    in_verificationToken = vt, in_otp = code,
                    in_otpExpires = expires\<rparr> d = (Inr c, d1)"
       "code = generateOTP (rand w)" "expires = now w + 5 * 60 * 1000"
       "vt = jwt_sign D (EmailClaims em) (EMAIL_SECRET E) ''1d'' (now w div 1000)"
       "oid c \<noteq> []"
       "(case generateAccessRefreshTokens D E w (oid c) d1 of
           (Inl e, d2) \<Rightarrow> (Inl e, d2)
         | (Inr (atok, rtok), d2) \<Rightarrow>
             (Inr (token_response 201 atok rtok (JObj (doc_of c))
                     (Some ''Client registered successfully!'')), d2)) = (Inr r, d')"
    by (auto simp: registerClient_def Let_def
             split: option.splits if_splits prod.splits sum.splits)
  from create_Inr [OF h(1)] h(2-4) obtain a where
    c: "d1 = d @ [c]" "findById d (oid c) = None" "c = created D E w nm em ph pw a (gd, av)"
    by (auto simp: created_def)
  have o: "oid c = new_oid w" by (simp add: c(3) created_def)
  from findById_append_new [OF c(2)] c(1) have f: "findById d1 (oid c) = Some c" by simp
  from generate_ok [OF h(5) f, of D E w] h(6)
  have "r = token_response 201 (generateAccessToken D E w c) (generateRefreshToken D E w c)
              (JObj (doc_of c)) (Some ''Client registered successfully!'')"
    and "d' = map (\<lambda>x. if oid x = oid c then issued D E w c else x) d1"
    by simp_all
  then have r: "r = token_response 201
                    (generateAccessToken D E w (created D E w nm em ph pw a (gd, av)))
                    (generateRefreshToken D E w (created D E w nm em ph pw a (gd, av)))
                    (JObj (doc_of (created D E w nm em ph pw a (gd, av))))
                    (Some ''Client registered successfully!'')"
    and d': "d' = map (\<lambda>x. if oid x = new_oid w
                              then issued D E w (created D E w nm em ph pw a (gd, av)) else x)
                     (d @ [created D E w nm em ph pw a (gd, av)])"
    unfolding o c(1) unfolding c(3) by simp_all
  from c(2) h(5) have n: "findById d (new_oid w) = None" "new_oid w \<noteq> []"
    unfolding o by simp_all
  from b(1-4,6) r d' n show ?thesis by blast
qed

lemma register_stored:
  "findById d (new_oid w) = None \<Longrightarrow> oid c = new_oid w \<Longrightarrow>
   findById (map (\<lambda>x. if oid x = new_oid w then issued D E w c else x) (d @ [c])) (new_oid w)
     = Some (issued D E w c)"
  using findById_append_new [of d c] findById_replace [of "d @ [c]" "new_oid w" c "issued D E w c"]
  by (simp add: issued_fields)

text \<open>
  Claim C10. A registration that succeeds answers 201 with the created document as it is,
  no path projected away: the body holds the plaintext OTP, its expiry five minutes ahead,
  the hashed password and the verification token. (The document of the answer is the one
  \<open>create\<close> returned; the stored one has since received the refresh token.)
\<close>

theorem registration_response_unredacted:
  assumes "registerClient D E w req d = (Inr r, d')"
    and "body req ''password'' = Some pw" "body req ''email'' = Some em"
  shows "\<exists>c. status r = 201 \<and> data (envelope r) = JObj (doc_of c)
           \<and> findById d' (oid c) = Some (issued D E w c)
           \<and> otp c = Val (generateOTP (rand w))
           \<and> otpExpires c = Val (now w + 5 * 60 * 1000)
           \<and> password c = bcrypt_hash D pw (salt_hook w)
           \<and> verificationToken c
               = Val (jwt_sign D (EmailClaims em) (EMAIL_SECRET E) ''1d'' (now w div 1000))
           \<and> lookup ''otp'' (data (envelope r)) = Some (JStr (generateOTP (rand w)))
           \<and> lookup ''otpExpires'' (data (envelope r)) = Some (JDate (now w + 5 * 60 * 1000))
           \<and> lookup ''password'' (data (envelope r))
               = Some (JStr (bcrypt_hash D pw (salt_hook w)))
           \<and> lookup ''verificationToken'' (data (envelope r))
               = Some (JStr (jwt_sign D (EmailClaims em) (EMAIL_SECRET E) ''1d''
                               (now w div 1000)))"
proof -
  from register_Inr [OF assms(1)] assms(2,3) obtain nm ph gd a av where
    h: "r = token_response 201
              (generateAccessToken D E w (created D E w nm em ph pw a (gd, av)))
              (generateRefreshToken D E w (created D E w nm em ph pw a (gd, av)))
              (JObj (doc_of (created D E w nm em ph pw a (gd, av))))
              (Some ''Client registered successfully!'')"
       "d' = map (\<lambda>x. if oid x = new_oid w
                        then issued D E w (created D E w nm em ph pw a (gd, av)) else x)
               (d @ [created D E w nm em ph pw a (gd, av)])"
       "findById d (new_oid w) = None"
    by auto
  have o: "oid (created D E w nm em ph pw a (gd, av)) = new_oid w"
    by (simp add: created_def)
  have f: "findById d' (oid (created D E w nm em ph pw a (gd, av)))
             = Some (issued D E w (created D E w nm em ph pw a (gd, av)))"
    unfolding h(2) o using h(3) o by (rule register_stored)
  show ?thesis
    by (rule exI [of _ "created D E w nm em ph pw a (gd, av)"])
       (simp add: h(1) token_response_def f doc_lookup, simp add: created_def)
qed


lemma register_sample:
  "registerClient sample_deps sample_env (sample_world 1200) register_request []
     = (Inr (token_response 201 ''ka.Ac1.i'' ''kr.Rc1.i''
               (JObj (doc_of (sample_client\<lparr>refreshToken := Null\<rparr>)))
               (Some ''Client registered successfully!'')),
        [sample_client])"
  by (simp add: registerClient_def sample_defs blank_def trim_def is_space_def
        findOne_email_or_phone_def otp_sample create_def schema_valid_def
        phone_ok_def digit_of_def is_digit_def parseInt_def parse_unsigned_def
        generateAccessRefreshTokens_def findById_def save_def generateRefreshToken_def
        generateAccessToken_def Let_def otp_mail_def)

theorem registration_response_unredacted_witness:
  "\<exists>c. status (token_response 201 ''ka.Ac1.i'' ''kr.Rc1.i''
                 (JObj (doc_of (sample_client\<lparr>refreshToken := Null\<rparr>)))
                 (Some ''Client registered successfully!'')) = 201
      \<and> JObj (doc_of (sample_client\<lparr>refreshToken := Null\<rparr>)) = JObj (doc_of c)
      \<and> otp c = Val ''123456'' \<and> otpExpires c = Val 301200 \<and> password c = ''#pw1''
      \<and> verificationToken c = Val ''ke.Eann@x.io.i''
      \<and> lookup ''otp'' (JObj (doc_of (sample_client\<lparr>refreshToken := Null\<rparr>)))
          = Some (JStr ''123456'')
      \<and> lookup ''otpExpires'' (JObj (doc_of (sample_client\<lparr>refreshToken := Null\<rparr>)))
          = Some (JDate 301200)
      \<and> lookup ''password'' (JObj (doc_of (sample_client\<lparr>refreshToken := Null\<rparr>)))
          = Some (JStr ''#pw1'')
      \<and> lookup ''verificationToken'' (JObj (doc_of (sample_client\<lparr>refreshToken := Null\<rparr>)))
          = Some (JStr ''ke.Eann@x.io.i'')"
proof -
  have b: "body register_request ''password'' = Some ''pw1''"
          "body register_request ''email'' = Some ''ann@x.io''"
    by (simp_all add: register_request_def sample_request_def)
  have v: "generateOTP (rand (sample_world 1200)) = ''123456''"
          "now (sample_world 1200) + 5 * 60 * 1000 = 301200"
          "bcrypt_hash sample_deps ''pw1'' (salt_hook (sample_world 1200)) = ''#pw1''"
          "jwt_sign sample_deps (EmailClaims ''ann@x.io'') (EMAIL_SECRET sample_env) ''1d''
             (now (sample_world 1200) div 1000) = ''ke.Eann@x.io.i''"
    by (simp_all add: sample_defs otp_sample)
  from registration_response_unredacted [OF register_sample b]
  show ?thesis
    unfolding v by (simp add: token_response_def) blast
qed

section \<open>Projections of the record\<close>

lemma scalar_mentions: "scalar v \<Longrightarrow> \<not> mentions k v"
  by (cases v) auto

lemma opt_entry_scalar_str: "kv \<in> set (opt_entry k JStr v) \<Longrightarrow> scalar (snd kv)"
  by (cases v) auto

lemma opt_entry_scalar_date: "kv \<in> set (opt_entry k JDate v) \<Longrightarrow> scalar (snd kv)"
  by (cases v) auto

lemma doc_scalar: "kv \<in> set (doc_of c) \<Longrightarrow> scalar (snd kv)"
  by (auto simp: doc_of_def dest: opt_entry_scalar_str opt_entry_scalar_date)

lemma projected_free:
  assumes "k \<in> set ks"
  shows "\<not> mentions k (JObj (select_excl ks (doc_of c)))"
proof
  assume "mentions k (JObj (select_excl ks (doc_of c)))"
  then obtain kv where kv: "kv \<in> set (doc_of c)" "fst kv \<notin> set ks"
      "fst kv = k \<or> mentions k (snd kv)"
    by (auto simp: select_excl_def list_ex_iff)
  from doc_scalar [OF kv(1)] have "\<not> mentions k (snd kv)" by (rule scalar_mentions)
  with kv(2,3) assms show False by auto
qed

lemma project_free:
  assumes "set ks' \<subseteq> set ks"
  shows "free_of ks' (project ks r)"
proof (cases r)
  case None
  then show ?thesis by (simp add: free_of_def project_def list_all_iff)
next
  case (Some c)
  have "\<not> mentions k (JObj (select_excl ks (doc_of c)))" if "k \<in> set ks'" for k
    using that assms by (intro projected_free) auto
  with Some show ?thesis
    by (simp add: free_of_def project_def list_all_iff del: mentions.simps)
qed

lemma mentions_unfold:
  "mentions k (JObj ((k', v) # kvs)) = (k' = k \<or> mentions k v \<or> mentions k (JObj kvs))"
  "mentions k (JObj []) = False"
  "mentions k (JArr vs) = (\<exists>v\<in>set vs. mentions k v)"
  by (simp_all add: list_ex_iff)

lemma getCurrentClient_free:
  "getCurrentClient req d = Inr r \<Longrightarrow> free_of secret_paths (data (envelope r))"
  by (auto simp: getCurrentClient_def plain_response_def secret_paths_def
           split: option.splits intro!: project_free)

lemma getClientById_free:
  "getClientById D req d = Inr r \<Longrightarrow> free_of secret_paths (data (envelope r))"
  by (auto simp: getClientById_def plain_response_def secret_paths_def
           split: option.splits if_splits sum.splits intro!: project_free)

lemma getAllClients_free:
  assumes "getAllClients req d = Inr r"
  shows "free_of secret_paths (data (envelope r))"
proof -
  from assms obtain found pg where
    r: "data (envelope r) =
          JObj [(''clients'',
                 JArr (map (\<lambda>c. JObj (select_excl
                                    [''password'', ''refreshToken'', ''otp'', ''otpExpires'',
                                     ''verificationToken''] (doc_of c))) found)),
                (''pagination'',
                 JObj [(''currentPage'', JNum (fst pg)), (''totalPages'', JNum (fst (snd pg))),
                       (''totalClients'', JNum (fst (snd (snd pg)))),
                       (''hasNextPage'', JBool (fst (snd (snd (snd pg))))),
                       (''hasPrevPage'', JBool (snd (snd (snd (snd pg)))))])]"
    by (auto simp: getAllClients_def plain_response_def Let_def
             split: option.splits if_splits prod.splits)
  have "\<not> mentions k (data (envelope r))" if "k \<in> set secret_paths" for k
  proof -
    have "\<not> mentions k (JObj (select_excl
                                    [''password'', ''refreshToken'', ''otp'', ''otpExpires'',
                                     ''verificationToken''] (doc_of c)))" for c
      using that by (intro projected_free) (auto simp: secret_paths_def)
    with that show ?thesis
      unfolding r by (auto simp: secret_paths_def mentions_unfold list_ex_iff simp del: mentions.simps(1))
  qed
  then show ?thesis by (simp add: free_of_def list_all_iff)
qed


lemma login_carries:
  assumes "loginClient D E w req d = (Inr r, d')"
  shows "\<exists>c c'. findOne_email d (body req ''email'') = Some c
           \<and> findById d' (oid c) = Some c'
           \<and> refreshToken c' = Val (jwt_sign D (IdClaims (oid c)) (REFRESH_TOKEN_SECRET E)
                                       (REFRESH_TOKEN_EXPIRY E) (now w div 1000))
           \<and> data (envelope r) =
               JObj [(''client'', JObj (select_excl [''password'', ''refreshToken''] (doc_of c'))),
                     (''accessToken'', JStr (generateAccessToken D E w c')),
                     (''refreshToken'',
                      JStr (jwt_sign D (IdClaims (oid c)) (REFRESH_TOKEN_SECRET E)
                              (REFRESH_TOKEN_EXPIRY E) (now w div 1000)))]
           \<and> set_cookies r =
               [(''accessToken'', generateAccessToken D E w c'),
                (''refreshToken'', jwt_sign D (IdClaims (oid c)) (REFRESH_TOKEN_SECRET E)
                                     (REFRESH_TOKEN_EXPIRY E) (now w div 1000))]"
proof -
  from assms obtain c a t where
    c: "findOne_email d (body req ''email'') = Some c"
    and g: "generateAccessRefreshTokens D E w (oid c) d = (Inr (a, t), d')"
    and r: "r = token_response 200 a t
                  (JObj [(''client'', (case findById d' (oid c) of
                                         None \<Rightarrow> JNull
                                       | Some c1 \<Rightarrow>
                                           JObj (select_excl [''password'', ''refreshToken'']
                                                   (doc_of c1)))),
                         (''accessToken'', JStr a), (''refreshToken'', JStr t)])
                  (Some ''Client logged in successfully!'')"
    by (auto simp: loginClient_def Let_def
             split: option.splits if_splits prod.splits sum.splits)
  from generate_cases [OF g] obtain c0 where
    c0: "findById d (oid c) = Some c0" "a = generateAccessToken D E w c0"
        "t = generateRefreshToken D E w c0"
        "d' = map (\<lambda>x. if oid x = oid c then issued D E w c0 else x) d"
    by auto
  from findById_Some [OF c0(1)] have i: "oid c0 = oid c" by simp
  have f: "findById d' (oid c) = Some (issued D E w c0)"
    unfolding c0(4) using c0(1) by (rule findById_replace) (simp add: issued_fields i)
  have t: "t = jwt_sign D (IdClaims (oid c)) (REFRESH_TOKEN_SECRET E)
                 (REFRESH_TOKEN_EXPIRY E) (now w div 1000)"
    by (simp add: c0(3) generateRefreshToken_def i)
  have a: "a = generateAccessToken D E w (issued D E w c0)"
    by (simp add: c0(2) generateAccessToken_def issued_def stamp_def)
  have "refreshToken (issued D E w c0) = Val t"
    by (simp add: issued_fields c0(3))
  with c f r t a show ?thesis
    by (auto simp: token_response_def)
qed

lemma map_of_select_excl:
  "map_of (select_excl ks kvs) k = (if k \<in> set ks then None else map_of kvs k)"
  unfolding select_excl_def by (induction kvs) auto

text \<open>
  Claim C2, as the code has it. The answers of \<open>getCurrentClient\<close>, \<open>getAllClients\<close> and
  \<open>getClientById\<close> hold none of the paths password, refreshToken, otp, otpExpires, at
  any depth. The answer of \<open>loginClient\<close> embeds the stored record without its password
  and refreshToken: the projection names these two paths only, so the entries otp and
  otpExpires of the record stay. Beside the embedded record the answer carries, under the
  key refreshToken and as a cookie, the refresh token that was signed for the record in this
  second and has just been stored on it.
\<close>

theorem sanitized_outputs:
  "(\<forall>r. getCurrentClient req d = Inr r \<longrightarrow> free_of secret_paths (data (envelope r)))
   \<and> (\<forall>r. getAllClients req d = Inr r \<longrightarrow> free_of secret_paths (data (envelope r)))
   \<and> (\<forall>r. getClientById D req d = Inr r \<longrightarrow> free_of secret_paths (data (envelope r)))
   \<and> (\<forall>r d'. loginClient D E w req d = (Inr r, d') \<longrightarrow>
         (\<exists>c c' rt. findOne_email d (body req ''email'') = Some c
            \<and> findById d' (oid c) = Some c'
            \<and> rt = jwt_sign D (IdClaims (oid c)) (REFRESH_TOKEN_SECRET E)
                     (REFRESH_TOKEN_EXPIRY E) (now w div 1000)
            \<and> refreshToken c' = Val rt
            \<and> lookup ''client'' (data (envelope r))
                = Some (JObj (select_excl [''password'', ''refreshToken''] (doc_of c')))
            \<and> free_of [''password'', ''refreshToken'']
                (JObj (select_excl [''password'', ''refreshToken''] (doc_of c')))
            \<and> lookup ''refreshToken'' (data (envelope r)) = Some (JStr rt)
            \<and> map_of (set_cookies r) ''refreshToken'' = Some rt))"
proof (intro conjI allI impI)
  fix r assume "getCurrentClient req d = Inr r"
  then show "free_of secret_paths (data (envelope r))" by (rule getCurrentClient_free)
next
  fix r assume "getAllClients req d = Inr r"
  then show "free_of secret_paths (data (envelope r))" by (rule getAllClients_free)
next
  fix r assume "getClientById D req d = Inr r"
  then show "free_of secret_paths (data (envelope r))" by (rule getClientById_free)
next
  fix r d' assume "loginClient D E w req d = (Inr r, d')"
  from login_carries [OF this] obtain c c' where
    h: "findOne_email d (body req ''email'') = Some c"
       "findById d' (oid c) = Some c'"
       "refreshToken c' = Val (jwt_sign D (IdClaims (oid c)) (REFRESH_TOKEN_SECRET E)
                                 (REFRESH_TOKEN_EXPIRY E) (now w div 1000))"
       "data (envelope r) =
               JObj [(''client'', JObj (select_excl [''password'', ''refreshToken''] (doc_of c'))),
                     (''accessToken'', JStr (generateAccessToken D E w c')),
                     (''refreshToken'',
                      JStr (jwt_sign D (IdClaims (oid c)) (REFRESH_TOKEN_SECRET E)
                              (REFRESH_TOKEN_EXPIRY E) (now w div 1000)))]"
       "set_cookies r =
               [(''accessToken'', generateAccessToken D E w c'),
                (''refreshToken'', jwt_sign D (IdClaims (oid c)) (REFRESH_TOKEN_SECRET E)
                                     (REFRESH_TOKEN_EXPIRY E) (now w div 1000))]"
    by blast
  have "free_of [''password'', ''refreshToken'']
          (project [''password'', ''refreshToken''] (Some c'))"
    by (rule project_free) simp
  then have p: "free_of [''password'', ''refreshToken'']
          (JObj (select_excl [''password'', ''refreshToken''] (doc_of c')))"
    by (simp add: project_def)
  have l: "lookup ''client'' (data (envelope r))
             = Some (JObj (select_excl [''password'', ''refreshToken''] (doc_of c')))"
          "lookup ''refreshToken'' (data (envelope r))
             = Some (JStr (jwt_sign D (IdClaims (oid c)) (REFRESH_TOKEN_SECRET E)
                             (REFRESH_TOKEN_EXPIRY E) (now w div 1000)))"
          "map_of (set_cookies r) ''refreshToken''
             = Some (jwt_sign D (IdClaims (oid c)) (REFRESH_TOKEN_SECRET E)
                             (REFRESH_TOKEN_EXPIRY E) (now w div 1000))"
    by (simp_all add: h(4,5))
  from h(1-3) p l
  show "\<exists>c c' rt. findOne_email d (body req ''email'') = Some c
            \<and> findById d' (oid c) = Some c'
            \<and> rt = jwt_sign D (IdClaims (oid c)) (REFRESH_TOKEN_SECRET E)
                     (REFRESH_TOKEN_EXPIRY E) (now w div 1000)
            \<and> refreshToken c' = Val rt
            \<and> lookup ''client'' (data (envelope r))
                = Some (JObj (select_excl [''password'', ''refreshToken''] (doc_of c')))
            \<and> free_of [''password'', ''refreshToken'']
                (JObj (select_excl [''password'', ''refreshToken''] (doc_of c')))
            \<and> lookup ''refreshToken'' (data (envelope r)) = Some (JStr rt)
            \<and> map_of (set_cookies r) ''refreshToken'' = Some rt"
    by blast
qed

lemma login_sample:
  assumes "c = sample_client\<lparr>verified := True, otp := o1, otpExpires := o2, updatedAt := u\<rparr>"
  shows "loginClient sample_deps sample_env (sample_world 5900) (login_request ''pw1'') [c]
     = (Inr (token_response 200 ''ka.Ac1.iiiii'' ''kr.Rc1.iiiii''
               (JObj [(''client'',
                       JObj (select_excl [''password'', ''refreshToken'']
                               (doc_of (c\<lparr>refreshToken := Val ''kr.Rc1.iiiii'',
                                          updatedAt := 5900\<rparr>)))),
                      (''accessToken'', JStr ''ka.Ac1.iiiii''),
                      (''refreshToken'', JStr ''kr.Rc1.iiiii'')])
               (Some ''Client logged in successfully!'')),
        [c\<lparr>refreshToken := Val ''kr.Rc1.iiiii'', updatedAt := 5900\<rparr>])"
proof -
  have t: "generateAccessToken sample_deps sample_env (sample_world 5900) c = ''ka.Ac1.iiiii''"
          "generateRefreshToken sample_deps sample_env (sample_world 5900) c = ''kr.Rc1.iiiii''"
    by (simp_all add: assms generateAccessToken_def generateRefreshToken_def sample_defs
          replicate_5)
  have i: "issued sample_deps sample_env (sample_world 5900) c
             = c\<lparr>refreshToken := Val ''kr.Rc1.iiiii'', updatedAt := 5900\<rparr>"
    unfolding issued_def t by (simp add: assms stamp_def sample_world_def sample_client_def)
  have "loginClient sample_deps sample_env (sample_world 5900) (login_request ''pw1'') [c] =
     (Inr (token_response 200
             (generateAccessToken sample_deps sample_env (sample_world 5900) c)
             (generateRefreshToken sample_deps sample_env (sample_world 5900) c)
             (JObj [(''client'', JObj (select_excl [''password'', ''refreshToken'']
                                         (doc_of (issued sample_deps sample_env
                                                    (sample_world 5900) c)))),
                    (''accessToken'',
                     JStr (generateAccessToken sample_deps sample_env (sample_world 5900) c)),
                    (''refreshToken'',
                     JStr (generateRefreshToken sample_deps sample_env (sample_world 5900) c))])
             (Some ''Client logged in successfully!'')),
      map (\<lambda>x. if oid x = oid c
                then issued sample_deps sample_env (sample_world 5900) c else x) [c])"
    by (rule login_success [where p = "''pw1''"])
       (simp_all add: assms login_request_def sample_request_def findOne_email_def findById_def
          trim_ann sample_client_def sample_deps_def)
  then show ?thesis
    unfolding t i by simp
qed

theorem sanitized_outputs_witness:
  "free_of secret_paths
     (data (envelope (plain_response 200
        (project [''password'', ''refreshToken'', ''otp'', ''otpExpires'', ''__v'']
           (Some sample_client)) (Some ''Current Client Data''))))
   \<and> (\<exists>r. getAllClients (sample_request []) [sample_client] = Inr r
          \<and> free_of secret_paths (data (envelope r)))
   \<and> free_of secret_paths
     (data (envelope (plain_response 200
        (project [''password'', ''refreshToken'', ''otp'', ''otpExpires'', ''verificationToken'']
           (Some sample_client)) (Some ''Client retrieved successfully''))))
   \<and> (\<exists>r d' c'. loginClient sample_deps sample_env (sample_world 5900) (login_request ''pw1'')
                    [sample_client\<lparr>verified := True, otp := Null, otpExpires := Null,
                                    updatedAt := 5000\<rparr>] = (Inr r, d')
          \<and> findById d' ''c1'' = Some c'
          \<and> refreshToken c' = Val ''kr.Rc1.iiiii''
          \<and> lookup ''client'' (data (envelope r))
              = Some (JObj (select_excl [''password'', ''refreshToken''] (doc_of c')))
          \<and> free_of [''password'', ''refreshToken'']
              (JObj (select_excl [''password'', ''refreshToken''] (doc_of c')))
          \<and> lookup ''refreshToken'' (data (envelope r)) = Some (JStr ''kr.Rc1.iiiii'')
          \<and> map_of (set_cookies r) ''refreshToken'' = Some ''kr.Rc1.iiiii'')"
proof -
  have a: "getCurrentClient (auth_request ''c1'') [sample_client]
             = Inr (plain_response 200
                      (project [''password'', ''refreshToken'', ''otp'', ''otpExpires'', ''__v'']
                         (Some sample_client)) (Some ''Current Client Data''))"
    by (simp add: getCurrentClient_def auth_request_def findById_def sample_client_def)
  note A = sanitized_outputs [THEN conjunct1, rule_format, OF a]
  have "\<exists>r. getAllClients (sample_request []) [sample_client] = Inr r"
    by (simp add: getAllClients_def query_int_def sample_request_def Let_def)
  then obtain r where b: "getAllClients (sample_request []) [sample_client] = Inr r" ..
  from sanitized_outputs [THEN conjunct2, THEN conjunct1, rule_format, OF b] b
  have B: "\<exists>r. getAllClients (sample_request []) [sample_client] = Inr r
          \<and> free_of secret_paths (data (envelope r))"
    by blast
  have c: "getClientById sample_deps (auth_request ''c1'') [sample_client]
             = Inr (plain_response 200
                      (project [''password'', ''refreshToken'', ''otp'', ''otpExpires'',
                                ''verificationToken'']
                         (Some sample_client)) (Some ''Client retrieved successfully''))"
    by (simp add: getClientById_def auth_request_def findById_cast_def findById_def
          sample_client_def sample_deps_def)
  note C = sanitized_outputs [THEN conjunct2, THEN conjunct2, THEN conjunct1, rule_format, OF c]
  note d = login_sample [OF refl, where ?o1.0 = Null and ?o2.0 = Null and u = 5000]
  from sanitized_outputs [THEN conjunct2, THEN conjunct2, THEN conjunct2, rule_format, OF d]
  obtain c0 c' rt where
    h: "findOne_email [sample_client\<lparr>verified := True, otp := Null, otpExpires := Null,
                                      updatedAt := 5000\<rparr>]
          (body (login_request ''pw1'') ''email'') = Some c0"
       "findById [sample_client\<lparr>verified := True, otp := Null, otpExpires := Null,
                                 updatedAt := 5000,
                                 refreshToken := Val ''kr.Rc1.iiiii'', updatedAt := 5900\<rparr>]
          (oid c0) = Some c'"
       "rt = jwt_sign sample_deps (IdClaims (oid c0)) (REFRESH_TOKEN_SECRET sample_env)
                (REFRESH_TOKEN_EXPIRY sample_env) (now (sample_world 5900) div 1000)"
       "refreshToken c' = Val rt"
       "lookup ''client'' (data (envelope (token_response 200 ''ka.Ac1.iiiii'' ''kr.Rc1.iiiii''
               (JObj [(''client'',
                       JObj (select_excl [''password'', ''refreshToken'']
                               (doc_of (sample_client\<lparr>verified := True, otp := Null,
                                          otpExpires := Null, updatedAt := 5000,
                                          refreshToken := Val ''kr.Rc1.iiiii'',
                                          updatedAt := 5900\<rparr>)))),
                      (''accessToken'', JStr ''ka.Ac1.iiiii''),
                      (''refreshToken'', JStr ''kr.Rc1.iiiii'')])
               (Some ''Client logged in successfully!''))))
          = Some (JObj (select_excl [''password'', ''refreshToken''] (doc_of c')))"
       "free_of [''password'', ''refreshToken'']
          (JObj (select_excl [''password'', ''refreshToken''] (doc_of c')))"
    by blast
  from h(1) have o: "oid c0 = ''c1''"
    by (auto simp: findOne_email_def login_request_def sample_request_def trim_ann
          sample_client_def split: if_splits)
  have rt: "rt = ''kr.Rc1.iiiii''"
    unfolding h(3) o by (simp add: sample_defs replicate_5)
  from d h(2,4,5,6) o rt
  have D: "\<exists>r d' c'. loginClient sample_deps sample_env (sample_world 5900)
                    (login_request ''pw1'')
                    [sample_client\<lparr>verified := True, otp := Null, otpExpires := Null,
                                    updatedAt := 5000\<rparr>] = (Inr r, d')
          \<and> findById d' ''c1'' = Some c'
          \<and> refreshToken c' = Val ''kr.Rc1.iiiii''
          \<and> lookup ''client'' (data (envelope r))
              = Some (JObj (select_excl [''password'', ''refreshToken''] (doc_of c')))
          \<and> free_of [''password'', ''refreshToken'']
              (JObj (select_excl [''password'', ''refreshToken''] (doc_of c')))
          \<and> lookup ''refreshToken'' (data (envelope r)) = Some (JStr ''kr.Rc1.iiiii'')
          \<and> map_of (set_cookies r) ''refreshToken'' = Some ''kr.Rc1.iiiii''"
    by (auto simp: token_response_def)
  show ?thesis
    by (rule conjI [OF A conjI [OF B conjI [OF C D]]])
qed

text \<open>
  The claim as stated fails for login. The client registers at 1200 ms, verifies by id at
  5000 ms and logs in at 5900 ms. The data of the login answer holds the key refreshToken,
  whose value is the token just stored on the record, and the embedded record shows the
  keys otp and otpExpires, which the id-keyed verification had set to \<^verbatim>\<open>null\<close>.
\<close>

theorem login_response_counterexample:
  "snd (registerClient sample_deps sample_env (sample_world 1200) register_request [])
     = [sample_client]
   \<and> snd (verifyOtp sample_deps sample_env (sample_world 5000) (id_otp_request ''123456'')
            [sample_client])
     = [sample_client\<lparr>verified := True, otp := Null, otpExpires := Null, updatedAt := 5000\<rparr>]
   \<and> loginClient sample_deps sample_env (sample_world 5900) (login_request ''pw1'')
      [sample_client\<lparr>verified := True, otp := Null, otpExpires := Null, updatedAt := 5000\<rparr>]
     = (Inr (token_response 200 ''ka.Ac1.iiiii'' ''kr.Rc1.iiiii''
               (JObj [(''client'',
                       JObj (select_excl [''password'', ''refreshToken'']
                               (doc_of (sample_client\<lparr>verified := True, otp := Null,
                                          otpExpires := Null,
                                          refreshToken := Val ''kr.Rc1.iiiii'',
                                          updatedAt := 5900\<rparr>)))),
                      (''accessToken'', JStr ''ka.Ac1.iiiii''),
                      (''refreshToken'', JStr ''kr.Rc1.iiiii'')])
               (Some ''Client logged in successfully!'')),
        [sample_client\<lparr>verified := True, otp := Null, otpExpires := Null,
                        refreshToken := Val ''kr.Rc1.iiiii'', updatedAt := 5900\<rparr>])
   \<and> \<not> free_of secret_paths
         (JObj [(''client'',
                 JObj (select_excl [''password'', ''refreshToken'']
                         (doc_of (sample_client\<lparr>verified := True, otp := Null,
                                    otpExpires := Null,
                                    refreshToken := Val ''kr.Rc1.iiiii'',
                                    updatedAt := 5900\<rparr>)))),
                (''accessToken'', JStr ''ka.Ac1.iiiii''),
                (''refreshToken'', JStr ''kr.Rc1.iiiii'')])
   \<and> map_of (select_excl [''password'', ''refreshToken'']
               (doc_of (sample_client\<lparr>verified := True, otp := Null, otpExpires := Null,
                          refreshToken := Val ''kr.Rc1.iiiii'', updatedAt := 5900\<rparr>))) ''otp''
       = Some JNull
   \<and> map_of (select_excl [''password'', ''refreshToken'']
               (doc_of (sample_client\<lparr>verified := True, otp := Null, otpExpires := Null,
                          refreshToken := Val ''kr.Rc1.iiiii'', updatedAt := 5900\<rparr>)))
         ''otpExpires''
       = Some JNull"
proof -
  have A: "snd (verifyOtp sample_deps sample_env (sample_world 5000) (id_otp_request ''123456'')
            [sample_client])
     = [sample_client\<lparr>verified := True, otp := Null, otpExpires := Null, updatedAt := 5000\<rparr>]"
    by (simp add: verifyOtp_sample)
  have B: "\<not> free_of secret_paths
         (JObj [(''client'',
                 JObj (select_excl [''password'', ''refreshToken'']
                         (doc_of (sample_client\<lparr>verified := True, otp := Null,
                                    otpExpires := Null,
                                    refreshToken := Val ''kr.Rc1.iiiii'',
                                    updatedAt := 5900\<rparr>)))),
                (''accessToken'', JStr ''ka.Ac1.iiiii''),
                (''refreshToken'', JStr ''kr.Rc1.iiiii'')])"
    by (simp add: free_of_def secret_paths_def mentions_unfold del: mentions.simps(1))
  show ?thesis
    using login_sample [OF refl, where ?o1.0 = Null and ?o2.0 = Null and u = 5000]
      register_eval A B
    by (simp add: map_of_select_excl doc_lookup)
qed

section \<open>The listing\<close>

lemma length_sort_docs: "length (sort_docs f asc d) = length d"
  by (simp add: sort_docs_def Let_def)

lemma ceil_div_pos:
  "0 < b \<Longrightarrow> ceil_div a b = Num \<lceil>real a / real_of_int b\<rceil>"
  using ceiling_divide_eq_div [of "int a" b, where ?'a = real]
  by (simp add: ceil_div_def)

lemma getAllClients_page:
  assumes "query_int req ''page'' 1 = Some page" "query_int req ''limit'' 10 = Some limit"
    and "1 \<le> page" "1 \<le> limit"
  shows "getAllClients req d =
     Inr (plain_response 200
            (JObj [(''clients'',
                    JArr (map listed
                            (take (nat limit)
                               (drop (nat ((page - 1) * limit)) (sorted_matches req d))))),
                   (''pagination'',
                    JObj [(''currentPage'', JNum (Num page)),
                          (''totalPages'',
                           JNum (Num \<lceil>real (length (filter (list_filter req) d))
                                        / real_of_int limit\<rceil>)),
                          (''totalClients'',
                           JNum (Num (int (length (filter (list_filter req) d))))),
                          (''hasNextPage'',
                           JBool (page < \<lceil>real (length (filter (list_filter req) d))
                                            / real_of_int limit\<rceil>)),
                          (''hasPrevPage'', JBool (1 < page))])])
            (Some ''Clients retrieved successfully''))"
proof -
  from assms(3,4) have "0 \<le> (page - 1) * limit" by simp
  then have s: "\<not> (page - 1) * limit < 0" by simp
  from assms(4) have l: "limit \<noteq> 0" "0 < limit" "\<bar>limit\<bar> = limit" by simp_all
  show ?thesis
    using assms(1,2) s l
    by (simp add: getAllClients_def Let_def apply_limit_def ceil_div_pos listed_def [abs_def]
          sorted_matches_def)
qed

lemma parse_2_10: "parseInt ''2'' = Some 2" "parseInt ''10'' = Some 10"
  by (simp_all add: parseInt_def parse_unsigned_def is_space_def digit_of_def)


lemma length_sorted_matches: "length (sorted_matches req d) = length (filter (list_filter req) d)"
  by (simp add: sorted_matches_def length_sort_docs)

lemma ceiling_25_10: "\<lceil>real 25 / real_of_int 10\<rceil> = 3"
  using ceiling_divide_eq_div [of 25 10, where ?'a = real] by simp

text \<open>
  Claim C7. For a page and a limit that parse to numbers of at least one, the listing
  answers with the matching records in the requested order after skipping
  \<open>(page - 1) * limit\<close> of them, at most \<open>limit\<close> many, with
  \<open>totalPages = \<lceil>totalClients / limit\<rceil>\<close>, \<open>hasNextPage\<close> iff \<open>page < totalPages\<close> and
  \<open>hasPrevPage\<close> iff \<open>page > 1\<close>. With \<open>page=2\<close>, \<open>limit=10\<close> and 25 matching records
  it returns exactly 10 records, 3 pages, and both flags true.
\<close>

theorem listing_pagination:
  "(\<forall>page limit. query_int req ''page'' 1 = Some page \<and> query_int req ''limit'' 10 = Some limit
        \<and> 1 \<le> page \<and> 1 \<le> limit \<longrightarrow>
      getAllClients req d =
        Inr (plain_response 200
               (JObj [(''clients'',
                       JArr (map listed
                               (take (nat limit)
                                  (drop (nat ((page - 1) * limit)) (sorted_matches req d))))),
                      (''pagination'',
                       JObj [(''currentPage'', JNum (Num page)),
                             (''totalPages'',
                              JNum (Num \<lceil>real (length (filter (list_filter req) d))
                                           / real_of_int limit\<rceil>)),
                             (''totalClients'',
                              JNum (Num (int (length (filter (list_filter req) d))))),
                             (''hasNextPage'',
                              JBool (page < \<lceil>real (length (filter (list_filter req) d))
                                               / real_of_int limit\<rceil>)),
                             (''hasPrevPage'', JBool (1 < page))])])
               (Some ''Clients retrieved successfully'')))
   \<and> (query req ''page'' = Some ''2'' \<and> query req ''limit'' = Some ''10''
        \<and> length (filter (list_filter req) d) = 25 \<longrightarrow>
      (\<exists>cs. getAllClients req d =
          Inr (plain_response 200
                 (JObj [(''clients'', JArr cs),
                        (''pagination'',
                         JObj [(''currentPage'', JNum (Num 2)), (''totalPages'', JNum (Num 3)),
                               (''totalClients'', JNum (Num 25)),
                               (''hasNextPage'', JBool True), (''hasPrevPage'', JBool True)])])
                 (Some ''Clients retrieved successfully''))
         \<and> length cs = 10))"
proof (intro conjI allI impI)
  fix page limit
  assume "query_int req ''page'' 1 = Some page \<and> query_int req ''limit'' 10 = Some limit
        \<and> 1 \<le> page \<and> 1 \<le> limit"
  then show "getAllClients req d =
        Inr (plain_response 200
               (JObj [(''clients'',
                       JArr (map listed
                               (take (nat limit)
                                  (drop (nat ((page - 1) * limit)) (sorted_matches req d))))),
                      (''pagination'',
                       JObj [(''currentPage'', JNum (Num page)),
                             (''totalPages'',
                              JNum (Num \<lceil>real (length (filter (list_filter req) d))
                                           / real_of_int limit\<rceil>)),
                             (''totalClients'',
                              JNum (Num (int (length (filter (list_filter req) d))))),
                             (''hasNextPage'',
                              JBool (page < \<lceil>real (length (filter (list_filter req) d))
                                               / real_of_int limit\<rceil>)),
                             (''hasPrevPage'', JBool (1 < page))])])
               (Some ''Clients retrieved successfully''))"
    using getAllClients_page [of req page limit d] by blast
next
  assume h: "query req ''page'' = Some ''2'' \<and> query req ''limit'' = Some ''10''
        \<and> length (filter (list_filter req) d) = 25"
  then have q: "query_int req ''page'' 1 = Some 2" "query_int req ''limit'' 10 = Some 10"
    by (simp_all add: query_int_def parse_2_10)
  from h have n: "length (filter (list_filter req) d) = 25" by simp
  have l: "length (map listed (take 10 (drop 10 (sorted_matches req d)))) = 10"
    by (simp add: length_sorted_matches n)
  have e: "getAllClients req d =
          Inr (plain_response 200
                 (JObj [(''clients'', JArr (map listed (take 10 (drop 10 (sorted_matches req d))))),
                        (''pagination'',
                         JObj [(''currentPage'', JNum (Num 2)), (''totalPages'', JNum (Num 3)),
                               (''totalClients'', JNum (Num 25)),
                               (''hasNextPage'', JBool True), (''hasPrevPage'', JBool True)])])
                 (Some ''Clients retrieved successfully''))"
    using getAllClients_page [OF q, of d] by (simp add: n ceiling_25_10)
  show "\<exists>cs. getAllClients req d =
          Inr (plain_response 200
                 (JObj [(''clients'', JArr cs),
                        (''pagination'',
                         JObj [(''currentPage'', JNum (Num 2)), (''totalPages'', JNum (Num 3)),
                               (''totalClients'', JNum (Num 25)),
                               (''hasNextPage'', JBool True), (''hasPrevPage'', JBool True)])])
                 (Some ''Clients retrieved successfully''))
         \<and> length cs = 10"
    by (intro exI conjI) (rule e, rule l)
qed

lemma filter_sample_clients:
  "filter (list_filter (page_request p l)) (sample_clients n) = sample_clients n"
  by (simp add: list_filter_def page_request_def)

theorem listing_pagination_witness:
  "getAllClients (page_request ''2'' ''10'') (sample_clients 25) =
     Inr (plain_response 200
            (JObj [(''clients'',
                    JArr (map listed
                            (take (nat 10)
                               (drop (nat ((2 - 1) * 10))
                                  (sorted_matches (page_request ''2'' ''10'')
                                     (sample_clients 25)))))),
                   (''pagination'',
                    JObj [(''currentPage'', JNum (Num 2)),
                          (''totalPages'',
                           JNum (Num \<lceil>real (length (filter (list_filter
                                          (page_request ''2'' ''10'')) (sample_clients 25)))
                                        / real_of_int 10\<rceil>)),
                          (''totalClients'',
                           JNum (Num (int (length (filter (list_filter
                                          (page_request ''2'' ''10'')) (sample_clients 25)))))),
                          (''hasNextPage'',
                           JBool (2 < \<lceil>real (length (filter (list_filter
                                          (page_request ''2'' ''10'')) (sample_clients 25)))
                                            / real_of_int 10\<rceil>)),
                          (''hasPrevPage'', JBool (1 < (2::int)))])])
            (Some ''Clients retrieved successfully''))
   \<and> (\<exists>cs. getAllClients (page_request ''2'' ''10'') (sample_clients 25) =
          Inr (plain_response 200
                 (JObj [(''clients'', JArr cs),
                        (''pagination'',
                         JObj [(''currentPage'', JNum (Num 2)), (''totalPages'', JNum (Num 3)),
                               (''totalClients'', JNum (Num 25)),
                               (''hasNextPage'', JBool True), (''hasPrevPage'', JBool True)])])
                 (Some ''Clients retrieved successfully''))
         \<and> length cs = 10)"
proof -
  have q: "query_int (page_request ''2'' ''10'') ''page'' 1 = Some 2
           \<and> query_int (page_request ''2'' ''10'') ''limit'' 10 = Some 10
           \<and> (1::int) \<le> 2 \<and> (1::int) \<le> 10"
    by (simp add: query_int_def page_request_def parse_2_10)
  have h: "query (page_request ''2'' ''10'') ''page'' = Some ''2''
           \<and> query (page_request ''2'' ''10'') ''limit'' = Some ''10''
           \<and> length (filter (list_filter (page_request ''2'' ''10'')) (sample_clients 25)) = 25"
    by (simp add: filter_sample_clients) (simp add: page_request_def sample_clients_def)
  show ?thesis
    by (rule conjI [OF listing_pagination [THEN conjunct1, rule_format, OF q]
                       listing_pagination [THEN conjunct2, rule_format, OF h]])
qed

section \<open>Profile update\<close>

lemma assign_fields_Some:
  "assign_fields D req c = Some c' \<Longrightarrow>
     oid c' = oid c \<and> password c' = password c \<and> otp c' = otp c
     \<and> otpExpires c' = otpExpires c \<and> refreshToken c' = refreshToken c
     \<and> verified c' = verified c"
  by (auto simp: assign_fields_def split: option.splits)

lemma update_Inr:
  assumes "updateClient D w req d = (Inr r, d')"
  shows "\<exists>i c c3 s. auth_client req = Some i \<and> findById d i = Some c
           \<and> save D w True c c3 d = (Inr s, d') \<and> oid c3 = oid c
           \<and> otp c3 = otp c \<and> otpExpires c3 = otpExpires c
           \<and> refreshToken c3 = refreshToken c \<and> verified c3 = verified c
           \<and> password c3 = (case body req ''password'' of
                               None \<Rightarrow> password c
                             | Some pw \<Rightarrow> if pw \<noteq> []
                                          then bcrypt_hash D pw (salt_controller w)
                                          else password c)"
proof -
  from assms obtain i c where
    a: "auth_client req = Some i" "findById d i = Some c"
    by (auto simp: updateClient_def split: option.splits)
  define c1 where "c1 = (case body req ''password'' of
                             None \<Rightarrow> c
                           | Some pw \<Rightarrow>
                               if pw \<noteq> []
                               then c\<lparr>password := bcrypt_hash D pw (salt_controller w)\<rparr>
                               else c)"
  from assms a obtain c2 c3 s where
    h: "(if truthy (file_path req)
         then map_option (\<lambda>u. c1\<lparr>avatar := u\<rparr>)
                (uploadToCloud D (case file_path req of Some p \<Rightarrow> p | None \<Rightarrow> []))
         else Some c1) = Some c2"
       "assign_fields D req c2 = Some c3" "save D w True c c3 d = (Inr s, d')"
    by (auto simp: updateClient_def Let_def c1_def
             split: option.splits if_splits prod.splits sum.splits)
  from h(1) have c2: "oid c2 = oid c1" "password c2 = password c1" "otp c2 = otp c1"
      "otpExpires c2 = otpExpires c1" "refreshToken c2 = refreshToken c1"
      "verified c2 = verified c1"
    by (auto split: if_splits)
  have c1: "oid c1 = oid c" "otp c1 = otp c" "otpExpires c1 = otpExpires c"
      "refreshToken c1 = refreshToken c" "verified c1 = verified c"
      "password c1 = (case body req ''password'' of
                               None \<Rightarrow> password c
                             | Some pw \<Rightarrow> if pw \<noteq> []
                                          then bcrypt_hash D pw (salt_controller w)
                                          else password c)"
    by (simp_all add: c1_def split: option.splits)
  from assign_fields_Some [OF h(2)] c2 c1 a h(3) show ?thesis
    by (intro exI [of _ i] exI [of _ c] exI [of _ c3] exI [of _ s]) simp
qed


lemma sample_sound: "bcrypt_sound sample_deps"
  by (auto simp: bcrypt_sound_def sample_deps_def)

text \<open>
  Claim C9. An update that supplies a non-empty password \<open>p\<close> and succeeds stores the hash
  of the hash of \<open>p\<close>: the controller hashes \<open>p\<close>, which modifies the path, and the
  pre-save hook hashes the modified path again. For a hasher that keeps its contract
  (only the hashed text verifies, and a hash differs from its text) \<open>isPasswordCorrect\<close>
  then rejects \<open>p\<close>, and every login that finds this record with \<open>p\<close> fails with 401.
  The path counts as modified when the controller's hash differs from the stored one,
  which a freshly drawn salt ensures.
\<close>

theorem update_hashes_twice:
  assumes "updateClient D w req d = (Inr r, d')"
    and "body req ''password'' = Some p" "p \<noteq> []"
    and "auth_client req = Some i" "findById d i = Some c"
    and "bcrypt_hash D p (salt_controller w) \<noteq> password c"
    and "bcrypt_sound D"
  shows "\<exists>c'. findById d' i = Some c'
           \<and> password c' = bcrypt_hash D (bcrypt_hash D p (salt_controller w)) (salt_hook w)
           \<and> isPasswordCorrect D c' (Some p) = Some False
           \<and> (\<forall>E w' req'. findOne_email d' (body req' ''email'') = Some c'
                   \<and> body req' ''password'' = Some p \<longrightarrow>
                 loginClient D E w' req' d' = (Inl (ApiError 401 ''Invalid user credentials''), d'))"
proof -
  from update_Inr [OF assms(1)] assms(2-5) obtain c3 s where
    h: "save D w True c c3 d = (Inr s, d')" "oid c3 = oid c"
       "password c3 = bcrypt_hash D p (salt_controller w)"
    by auto
  from findById_Some [OF assms(5)] have i: "oid c = i" by simp
  from save_Inr [OF h(1)] h(2,3) i assms(6) have
    s: "d' = map (\<lambda>x. if oid x = i then s else x) d" "oid s = i"
       "password s = bcrypt_hash D (bcrypt_hash D p (salt_controller w)) (salt_hook w)"
    by simp_all
  have f: "findById d' i = Some s"
    unfolding s(1) using assms(5) s(2) by (rule findById_replace)
  from assms(7) have "\<not> bcrypt_compare D p (password s)"
    unfolding s(3) bcrypt_sound_def by metis
  then have n: "isPasswordCorrect D s (Some p) = Some False"
    by (simp add: isPasswordCorrect_def)
  have "loginClient D E w' req' d' = (Inl (ApiError 401 ''Invalid user credentials''), d')"
    if "findOne_email d' (body req' ''email'') = Some s \<and> body req' ''password'' = Some p"
    for E w' req'
    using that n by (simp add: loginClient_def)
  with f s(3) n show ?thesis by blast
qed

lemma update_sample:
  "updateClient sample_deps (sample_world 7000) (update_request ''pw2'')
      [sample_client\<lparr>verified := True\<rparr>]
     = (Inr (plain_response 200
               (JObj (doc_of (sample_client\<lparr>verified := True, password := ''##pw2'',
                                updatedAt := 7000\<rparr>)))
               (Some ''Client updated successfully'')),
        [sample_client\<lparr>verified := True, password := ''##pw2'', updatedAt := 7000\<rparr>])"
  by (simp add: updateClient_def update_request_def findById_def sample_client_def
        matches_email_def matches_phone_def trim_def is_space_def sample_deps_def
        assign_fields_def parseInt_def parse_unsigned_def digit_of_def is_digit_def
        save_def schema_valid_def phone_ok_def Let_def sample_world_def)

theorem update_hashes_twice_witness:
  "findById [sample_client\<lparr>verified := True, password := ''##pw2'', updatedAt := 7000\<rparr>] ''c1''
     = Some (sample_client\<lparr>verified := True, password := ''##pw2'', updatedAt := 7000\<rparr>)
   \<and> isPasswordCorrect sample_deps
         (sample_client\<lparr>verified := True, password := ''##pw2'', updatedAt := 7000\<rparr>)
         (Some ''pw2'') = Some False
   \<and> loginClient sample_deps sample_env (sample_world 8000) (login_request ''pw2'')
         [sample_client\<lparr>verified := True, password := ''##pw2'', updatedAt := 7000\<rparr>]
       = (Inl (ApiError 401 ''Invalid user credentials''),
          [sample_client\<lparr>verified := True, password := ''##pw2'', updatedAt := 7000\<rparr>])"
proof -
  have b: "body (update_request ''pw2'') ''password'' = Some ''pw2''" "''pw2'' \<noteq> []"
          "auth_client (update_request ''pw2'') = Some ''c1''"
          "findById [sample_client\<lparr>verified := True\<rparr>] ''c1''
             = Some (sample_client\<lparr>verified := True\<rparr>)"
          "bcrypt_hash sample_deps ''pw2'' (salt_controller (sample_world 7000))
             \<noteq> password (sample_client\<lparr>verified := True\<rparr>)"
    by (simp_all add: update_request_def findById_def sample_client_def sample_deps_def)
  from update_hashes_twice [OF update_sample b sample_sound] obtain c' where
    c: "findById [sample_client\<lparr>verified := True, password := ''##pw2'', updatedAt := 7000\<rparr>]
          ''c1'' = Some c'"
       "isPasswordCorrect sample_deps c' (Some ''pw2'') = Some False"
       "\<And>E w' req'.
           findOne_email
             [sample_client\<lparr>verified := True, password := ''##pw2'', updatedAt := 7000\<rparr>]
             (body req' ''email'') = Some c'
           \<and> body req' ''password'' = Some ''pw2'' \<Longrightarrow>
           loginClient sample_deps E w' req'
             [sample_client\<lparr>verified := True, password := ''##pw2'', updatedAt := 7000\<rparr>]
           = (Inl (ApiError 401 ''Invalid user credentials''),
              [sample_client\<lparr>verified := True, password := ''##pw2'', updatedAt := 7000\<rparr>])"
    by blast
  from c(1) have e: "c' = sample_client\<lparr>verified := True, password := ''##pw2'',
                                         updatedAt := 7000\<rparr>"
    by (simp add: findById_def sample_client_def split: if_splits)
  have "loginClient sample_deps sample_env (sample_world 8000) (login_request ''pw2'')
         [sample_client\<lparr>verified := True, password := ''##pw2'', updatedAt := 7000\<rparr>]
       = (Inl (ApiError 401 ''Invalid user credentials''),
          [sample_client\<lparr>verified := True, password := ''##pw2'', updatedAt := 7000\<rparr>])"
    by (rule c(3))
       (simp add: e findOne_email_def login_request_def sample_request_def trim_ann
          sample_client_def)
  with c(1,2) show ?thesis
    unfolding e by blast
qed

section \<open>The OTP paths stay paired\<close>

lemma paired_replace:
  "paired d \<Longrightarrow> otp_paired s \<Longrightarrow> paired (map (\<lambda>x. if oid x = i then s else x) d)"
  by (auto simp: paired_def list_all_iff)

lemma paired_findById: "paired d \<Longrightarrow> findById d i = Some c \<Longrightarrow> otp_paired c"
  by (auto simp: paired_def list_all_iff dest: findById_Some)

lemma paired_save:
  assumes "save D w v l doc d = (r, d')" "paired d" "otp_paired doc"
  shows "paired d'"
proof (cases r)
  case (Inl e)
  with assms(1) have "d' = d" by (auto dest: save_Inl)
  with assms(2) show ?thesis by simp
next
  case (Inr s)
  with assms(1) have "d' = map (\<lambda>c. if oid c = oid doc then s else c) d"
    and "otp s = otp doc" "otpExpires s = otpExpires doc"
    by (auto dest: save_Inr)
  with assms(2,3) show ?thesis
    by (auto simp: otp_paired_def intro!: paired_replace)
qed

lemma paired_generate:
  assumes "generateAccessRefreshTokens D E w i d = (r, d')" "paired d"
  shows "paired d'"
  using generate_cases [OF assms(1)] assms(2)
  by (auto simp: otp_paired_def issued_fields intro!: paired_replace
           dest: paired_findById)

lemma paired_create:
  assumes "create D w x d = (r, d')" "paired d"
  shows "paired d'"
proof (cases r)
  case (Inl e)
  with assms show ?thesis
    by (auto simp: create_def Let_def split: option.splits if_splits)
next
  case (Inr c)
  with assms(1) obtain a where "d' = d @ [c]" "otp c = Val (in_otp x)"
      "otpExpires c = Val (in_otpExpires x)"
    by (auto dest!: create_Inr)
  with assms(2) show ?thesis
    by (simp add: paired_def otp_paired_def)
qed

lemma paired_verifyEmail: "paired d \<Longrightarrow> paired (snd (verifyEmail D w req d))"
  by (auto simp: verifyEmail_def otp_paired_def
           split: option.splits if_splits prod.splits sum.splits
           dest!: paired_save)

lemma paired_verifyOtp: "paired d \<Longrightarrow> paired (snd (verifyOtp D E w req d))"
  by (auto simp: verifyOtp_def otp_paired_def Let_def
           split: option.splits if_splits prod.splits sum.splits
           dest!: paired_save)

lemma paired_login: "paired d \<Longrightarrow> paired (snd (loginClient D E w req d))"
  by (auto simp: loginClient_def Let_def
           split: option.splits if_splits prod.splits sum.splits
           dest: paired_generate)

lemma paired_refresh: "paired d \<Longrightarrow> paired (snd (refreshAccessToken D E w req d))"
  by (auto simp: refreshAccessToken_def Let_def
           split: option.splits if_splits prod.splits sum.splits
           dest: paired_generate)

lemma paired_logout: "paired d \<Longrightarrow> paired (snd (logoutClient w req d))"
  by (auto simp: logoutClient_def findByIdAndUpdate_refreshToken_null_def otp_paired_def
           split: option.splits
           intro!: paired_replace dest: paired_findById)


lemma paired_update:
  assumes "paired d"
  shows "paired (snd (updateClient D w req d))"
proof (cases "updateClient D w req d")
  case (Pair r d')
  show ?thesis
  proof (cases r)
    case (Inl e)
    with Pair have "d' = d"
      by (auto simp: updateClient_def Let_def
               split: option.splits if_splits prod.splits sum.splits dest: save_Inl)
    with Pair assms show ?thesis by simp
  next
    case (Inr x)
    with Pair update_Inr [of D w req d x d'] obtain i c c3 s where
      h: "findById d i = Some c" "save D w True c c3 d = (Inr s, d')"
         "otp c3 = otp c" "otpExpires c3 = otpExpires c"
      by auto
    from paired_findById [OF assms h(1)] h(3,4) have "otp_paired c3"
      by (simp add: otp_paired_def)
    with h(2) assms have "paired d'" by (rule paired_save)
    with Pair show ?thesis by simp
  qed
qed

lemma paired_register:
  assumes "paired d"
  shows "paired (snd (registerClient D E w req d))"
proof (cases "registerClient D E w req d")
  case (Pair r d')
  show ?thesis
  proof (cases r)
    case (Inl e)
    with Pair assms have "paired d'"
      by (auto simp: registerClient_def Let_def
               split: option.splits if_splits prod.splits sum.splits
               dest: paired_create paired_generate)
    with Pair show ?thesis by simp
  next
    case (Inr x)
    with Pair register_Inr [of D E w req d x d'] obtain nm em ph pw gd a av where
      "d' = map (\<lambda>x. if oid x = new_oid w
                       then issued D E w (created D E w nm em ph pw a (gd, av)) else x)
              (d @ [created D E w nm em ph pw a (gd, av)])"
      by blast
    moreover have "otp_paired (created D E w nm em ph pw a (gd, av))"
      by (simp add: otp_paired_def created_def)
    ultimately have "\<exists>c. d' = map (\<lambda>x. if oid x = new_oid w then issued D E w c else x) (d @ [c])
                       \<and> otp_paired c"
      by blast
    then obtain c where
      "d' = map (\<lambda>x. if oid x = new_oid w then issued D E w c else x) (d @ [c])"
      "otp_paired c"
      by blast
    with assms have "paired d'"
      by (auto simp: paired_def otp_paired_def issued_fields list_all_iff)
    with Pair show ?thesis by simp
  qed
qed


text \<open>
  Claim C6. Every handler that writes to the store keeps the code and its expiry together:
  if each stored record has \<open>otp\<close> and \<open>otpExpires\<close> both set or both cleared before
  the call, so it has after it, whether the call succeeds or fails. Registration stores a
  record with the code set and the expiry five minutes after the clock; both verification
  handlers leave the record with both paths cleared. (The remaining handlers only read.)
\<close>

theorem otp_paths_paired:
  assumes "paired d"
  shows "paired (snd (registerClient D E w req d)) \<and> paired (snd (loginClient D E w req d))
     \<and> paired (snd (verifyEmail D w req d)) \<and> paired (snd (logoutClient w req d))
     \<and> paired (snd (updateClient D w req d)) \<and> paired (snd (refreshAccessToken D E w req d))
     \<and> paired (snd (verifyOtp D E w req d))
     \<and> (\<forall>r d'. registerClient D E w req d = (Inr r, d') \<longrightarrow>
           (\<exists>c. findById d' (new_oid w) = Some c \<and> otp c = Val (generateOTP (rand w))
              \<and> otpExpires c = Val (now w + 5 * 60 * 1000)))
     \<and> (\<forall>r d'. verifyEmail D w req d = (Inr r, d') \<longrightarrow>
           (\<exists>c. findOne_email d' (body req ''email'') = Some c
              \<and> \<not> is_set (otp c) \<and> \<not> is_set (otpExpires c)))
     \<and> (\<forall>r d'. verifyOtp D E w req d = (Inr r, d') \<longrightarrow>
           (\<exists>i j c. body req ''clientId'' = Some i \<and> castObjectId D i = Some j
              \<and> findById d' j = Some c \<and> \<not> is_set (otp c) \<and> \<not> is_set (otpExpires c)))"
proof (intro conjI allI impI)
  fix r d' assume "registerClient D E w req d = (Inr r, d')"
  from register_Inr [OF this] obtain nm em ph pw gd a av where
    h: "d' = map (\<lambda>x. if oid x = new_oid w
                       then issued D E w (created D E w nm em ph pw a (gd, av)) else x)
              (d @ [created D E w nm em ph pw a (gd, av)])"
       "findById d (new_oid w) = None"
    by blast
  have "findById d' (new_oid w) = Some (issued D E w (created D E w nm em ph pw a (gd, av)))"
    unfolding h(1) using h(2) by (rule register_stored) (simp add: created_def)
  moreover have "otp (issued D E w (created D E w nm em ph pw a (gd, av)))
                   = Val (generateOTP (rand w))"
    "otpExpires (issued D E w (created D E w nm em ph pw a (gd, av)))
                   = Val (now w + 5 * 60 * 1000)"
    by (simp_all add: issued_fields created_def)
  ultimately show "\<exists>c. findById d' (new_oid w) = Some c \<and> otp c = Val (generateOTP (rand w))
              \<and> otpExpires c = Val (now w + 5 * 60 * 1000)"
    by blast
next
  fix r d' assume "verifyEmail D w req d = (Inr r, d')"
  from verifyEmail_once [OF this]
  show "\<exists>c. findOne_email d' (body req ''email'') = Some c
              \<and> \<not> is_set (otp c) \<and> \<not> is_set (otpExpires c)"
    by auto
next
  fix r d' assume "verifyOtp D E w req d = (Inr r, d')"
  from verifyOtp_once [OF this]
  show "\<exists>i j c. body req ''clientId'' = Some i \<and> castObjectId D i = Some j
              \<and> findById d' j = Some c \<and> \<not> is_set (otp c) \<and> \<not> is_set (otpExpires c)"
    by auto
qed (use assms in \<open>simp_all add: paired_register paired_login paired_verifyEmail paired_logout
      paired_update paired_refresh paired_verifyOtp\<close>)

theorem otp_paths_paired_witness:
  "paired (snd (registerClient sample_deps sample_env (sample_world 1200) register_request []))
   \<and> (\<exists>c. findById [sample_client] ''c1'' = Some c \<and> otp c = Val ''123456''
          \<and> otpExpires c = Val 301200)
   \<and> paired (snd (verifyEmail sample_deps (sample_world 5000) (email_otp_request ''123456'')
                    [sample_client]))
   \<and> (\<exists>c. findOne_email
               (snd (verifyEmail sample_deps (sample_world 5000) (email_otp_request ''123456'')
                       [sample_client]))
               (Some ''ann@x.io'') = Some c
          \<and> \<not> is_set (otp c) \<and> \<not> is_set (otpExpires c))
   \<and> paired (snd (verifyOtp sample_deps sample_env (sample_world 5000)
                    (id_otp_request ''123456'') [sample_client]))
   \<and> (\<exists>c. findById
               (snd (verifyOtp sample_deps sample_env (sample_world 5000)
                       (id_otp_request ''123456'') [sample_client]))
               ''c1'' = Some c
          \<and> \<not> is_set (otp c) \<and> \<not> is_set (otpExpires c))"
proof -
  have p0: "paired []" by (simp add: paired_def)
  have p1: "paired [sample_client]"
    by (simp add: paired_def otp_paired_def sample_client_def)
  note R = otp_paths_paired [OF p0, of sample_deps sample_env "sample_world 1200" register_request]
  from R have A: "paired (snd (registerClient sample_deps sample_env (sample_world 1200)
                                register_request []))"
    by blast
  from R register_sample
  have "\<exists>c. findById [sample_client] (new_oid (sample_world 1200)) = Some c
          \<and> otp c = Val (generateOTP (rand (sample_world 1200)))
          \<and> otpExpires c = Val (now (sample_world 1200) + 5 * 60 * 1000)"
    by blast
  then have B: "\<exists>c. findById [sample_client] ''c1'' = Some c \<and> otp c = Val ''123456''
          \<and> otpExpires c = Val 301200"
    by (simp add: sample_world_def otp_sample)
  have ok1: "\<exists>r d'. verifyEmail sample_deps (sample_world 5000) (email_otp_request ''123456'')
               [sample_client] = (Inr r, d')"
    using verifyEmail_ok [where em = "''ann@x.io''" and code = "''123456''"
        and req = "email_otp_request ''123456''" and d = "[sample_client]" and c = sample_client
        and w = "sample_world 5000" and D = sample_deps]
    by (simp add: email_otp_request_def sample_request_def findOne_email_def trim_ann
          sample_world_def sample_client_valid) (simp add: sample_client_def)
  note V = otp_paths_paired [OF p1, of sample_deps sample_env "sample_world 5000"
             "email_otp_request ''123456''"]
  from V have C: "paired (snd (verifyEmail sample_deps (sample_world 5000)
                                (email_otp_request ''123456'') [sample_client]))"
    by blast
  from V ok1
  have "\<exists>c. findOne_email
               (snd (verifyEmail sample_deps (sample_world 5000) (email_otp_request ''123456'')
                       [sample_client]))
               (body (email_otp_request ''123456'') ''email'') = Some c
          \<and> \<not> is_set (otp c) \<and> \<not> is_set (otpExpires c)"
    by (metis snd_conv)
  then have D: "\<exists>c. findOne_email
               (snd (verifyEmail sample_deps (sample_world 5000) (email_otp_request ''123456'')
                       [sample_client]))
               (Some ''ann@x.io'') = Some c
          \<and> \<not> is_set (otp c) \<and> \<not> is_set (otpExpires c)"
    by (simp add: email_otp_request_def sample_request_def)
  note W = otp_paths_paired [OF p1, of sample_deps sample_env "sample_world 5000"
             "id_otp_request ''123456''"]
  from W have E: "paired (snd (verifyOtp sample_deps sample_env (sample_world 5000)
                                (id_otp_request ''123456'') [sample_client]))"
    by blast
  from W verifyOtp_sample
  have "\<exists>i j c. body (id_otp_request ''123456'') ''clientId'' = Some i
          \<and> castObjectId sample_deps i = Some j
          \<and> findById
               (snd (verifyOtp sample_deps sample_env (sample_world 5000)
                       (id_otp_request ''123456'') [sample_client])) j = Some c
          \<and> \<not> is_set (otp c) \<and> \<not> is_set (otpExpires c)"
    by (metis snd_conv)
  then have F: "\<exists>c. findById
               (snd (verifyOtp sample_deps sample_env (sample_world 5000)
                       (id_otp_request ''123456'') [sample_client]))
               ''c1'' = Some c
          \<and> \<not> is_set (otp c) \<and> \<not> is_set (otpExpires c)"
    by (auto simp: id_otp_request_def sample_request_def sample_deps_def split: if_splits)
  show ?thesis
    by (rule conjI [OF A conjI [OF B conjI [OF C conjI [OF D conjI [OF E F]]]]])
qed

end
